theory Spec2Isabelle
  imports Main
begin

section \<open>Strings of the source language\<close>

text \<open>
  A source string is modelled by a \<^typ>\<open>string\<close>: the list of its code units, for strings
  whose code units are below 256. The helpers below are the built-ins the modelled
  functions call: \<^verbatim>\<open>String.prototype.trim\<close>, \<^verbatim>\<open>String.prototype.includes\<close>,
  the decimal rendering of a non-negative integer inside a template literal, and
  \<^verbatim>\<open>encodeURIComponent\<close>.
\<close>

definition is_white_space :: "char \<Rightarrow> bool" where
  "is_white_space c \<longleftrightarrow> (of_char c :: nat) \<in> set [9, 10, 11, 12, 13, 32, 160]"

definition trim :: "string \<Rightarrow> string" where
  "trim s = rev (dropWhile is_white_space (rev (dropWhile is_white_space s)))"

fun is_prefix_of :: "string \<Rightarrow> string \<Rightarrow> bool" where
  "is_prefix_of [] ys = True"
| "is_prefix_of (x # xs) [] = False"
| "is_prefix_of (x # xs) (y # ys) = (x = y \<and> is_prefix_of xs ys)"

fun string_includes :: "string \<Rightarrow> string \<Rightarrow> bool" where
  "string_includes [] needle = (needle = [])"
| "string_includes (c # cs) needle = (is_prefix_of needle (c # cs) \<or> string_includes cs needle)"

text \<open>
  The decimal numeral of a number. It is what \<^verbatim>\<open>String\<close> and a template literal give for
  a number that is a safe integer (of magnitude at most \<open>2\<^sup>5\<^sup>3 - 1\<close>); beyond, the code
  rounds and, from \<open>10\<^sup>2\<^sup>1\<close> on, writes an exponent. The statements that render a number
  supplied by the caller are made for safe integers.
\<close>

definition digit_char :: "nat \<Rightarrow> char" where
  "digit_char d = ''0123456789'' ! d"

fun string_of_nat :: "nat \<Rightarrow> string" where
  "string_of_nat n =
     (if n < 10 then [digit_char n] else string_of_nat (n div 10) @ [digit_char (n mod 10)])"

definition string_of_int :: "int \<Rightarrow> string" where
  "string_of_int i = (if i < 0 then CHR ''-'' # string_of_nat (nat (- i)) else string_of_nat (nat i))"

definition hex_char :: "nat \<Rightarrow> char" where
  "hex_char d = ''0123456789ABCDEF'' ! d"

definition percent_byte :: "nat \<Rightarrow> string" where
  "percent_byte b = [CHR ''%'', hex_char (b div 16), hex_char (b mod 16)]"

definition is_uri_unreserved :: "char \<Rightarrow> bool" where
  "is_uri_unreserved c \<longleftrightarrow>
     (let n = (of_char c :: nat) in
        (65 \<le> n \<and> n \<le> 90) \<or> (97 \<le> n \<and> n \<le> 122) \<or> (48 \<le> n \<and> n \<le> 57) \<or>
        c \<in> set ''-_.!~*'' \<or> n = 39 \<or> n = 40 \<or> n = 41)"

definition encode_unit :: "char \<Rightarrow> string" where
  "encode_unit c =
     (let n = (of_char c :: nat) in
        if is_uri_unreserved c then [c]
        else if n < 128 then percent_byte n
        else percent_byte (192 + n div 64) @ percent_byte (128 + n mod 64))"

definition encodeURIComponent :: "string \<Rightarrow> string" where
  "encodeURIComponent s = concat (map encode_unit s)"

section \<open>Types of \<^verbatim>\<open>types.ts\<close>\<close>

text \<open>
  The numeric fields of the configuration are a count of attempts and two durations in
  milliseconds: natural numbers.
\<close>

record RxNormConfig =
  baseUrl :: string
  timeout :: nat
  retryAttempts :: nat
  retryDelay :: nat

definition DEFAULT_RXNORM_CONFIG :: RxNormConfig where
  "DEFAULT_RXNORM_CONFIG =
     \<lparr>baseUrl = ''https://rxnav.nlm.nih.gov/REST'', timeout = 10000,
      retryAttempts = 3, retryDelay = 1000\<rparr>"

datatype normalization_status = SUCCESS | NOT_FOUND | ERROR

record NormalizationResult =
  originalName :: string
  genericName :: "string option"
  rxcui :: "string option"
  status :: normalization_status
  errorMessage :: "string option"

text \<open>
  The two response bodies. A field the code tests for absence before use is an option;
  of a candidate and of a concept only the field the code reads is kept.
\<close>

record candidate =
  candidate_rxcui :: string

record approximateGroup =
  candidate :: "candidate list option"

record conceptProperty =
  concept_name :: string

record conceptGroup =
  tty :: string
  conceptProperties :: "conceptProperty list option"

record relatedGroup =
  conceptGroup :: "conceptGroup list option"

text \<open>
  What \<^verbatim>\<open>response.json()\<close> gives: it throws (an error with a name and a message), or it
  yields an object of one of the two declared shapes. An object of the other shape has
  none of the fields a lookup reads. \<open>JsonThrows\<close> also stands for a body, such as
  \<^verbatim>\<open>null\<close>, on which the first field read throws.
\<close>

datatype json_body =
  JsonThrows string string
  | ApproximateResponse "approximateGroup option"
  | RelatedResponse "relatedGroup option"

record response =
  http_status :: nat
  statusText :: string
  body :: json_body

definition ok :: "response \<Rightarrow> bool" where
  "ok r \<longleftrightarrow> 200 \<le> http_status r \<and> http_status r \<le> 299"

section \<open>Errors\<close>

text \<open>
  A thrown value is an \<^verbatim>\<open>RxNormAPIError\<close> (message, code, statusCode, drugName) or
  another error object (name, message).
\<close>

datatype js_error =
  RxNormAPIError string "string option" "nat option" "string option"
  | OtherError string string

fun message :: "js_error \<Rightarrow> string" where
  "message (RxNormAPIError m c s d) = m"
| "message (OtherError n m) = m"

fun code :: "js_error \<Rightarrow> string option" where
  "code (RxNormAPIError m c s d) = c"
| "code (OtherError n m) = None"

fun statusCode :: "js_error \<Rightarrow> nat option" where
  "statusCode (RxNormAPIError m c s d) = s"
| "statusCode (OtherError n m) = None"

fun drugName_of :: "js_error \<Rightarrow> string option" where
  "drugName_of (RxNormAPIError m c s d) = d"
| "drugName_of (OtherError n m) = None"

fun is_RxNormAPIError :: "js_error \<Rightarrow> bool" where
  "is_RxNormAPIError (RxNormAPIError m c s d) = True"
| "is_RxNormAPIError (OtherError n m) = False"

text \<open>The rendering of an error inside a template literal (\<^verbatim>\<open>Error.prototype.toString\<close>).\<close>

fun error_to_string :: "js_error \<Rightarrow> string" where
  "error_to_string (RxNormAPIError m c s d) =
     (if m = [] then ''RxNormAPIError'' else ''RxNormAPIError: '' @ m)"
| "error_to_string (OtherError n m) =
     (if n = [] then m else if m = [] then n else n @ '': '' @ m)"

section \<open>The world: the remote service and what the client does to it\<close>

text \<open>
  The remote service is a parameter: \<open>net k url\<close> is what the \<open>k\<close>-th call of
  \<^verbatim>\<open>fetch\<close> does when given \<open>url\<close>; it resolves to a response or throws. An abort by
  the timeout controller is the thrown error named \<^verbatim>\<open>AbortError\<close>. The world counts the
  calls made and records, in order, every call of \<^verbatim>\<open>fetch\<close>, of \<^verbatim>\<open>sleep\<close> and of the
  progress callback.
\<close>

datatype fetch_outcome = Resolves response | Throws string string

type_synonym net = "nat \<Rightarrow> string \<Rightarrow> fetch_outcome"

datatype event = Fetch string | Sleep nat | Progress nat nat string

record world =
  calls :: nat
  trace :: "event list"

definition sleep :: "nat \<Rightarrow> world \<Rightarrow> world" where
  "sleep ms w = w\<lparr>trace := trace w @ [Sleep ms]\<rparr>"

definition fetch :: "net \<Rightarrow> string \<Rightarrow> world \<Rightarrow> fetch_outcome \<times> world" where
  "fetch net url w = (net (calls w) url, w\<lparr>calls := Suc (calls w), trace := trace w @ [Fetch url]\<rparr>)"

section \<open>\<^verbatim>\<open>rxnorm-client.ts\<close>\<close>

definition fetchWithTimeout :: "net \<Rightarrow> string \<Rightarrow> nat \<Rightarrow> world \<Rightarrow> (js_error + response) \<times> world" where
  "fetchWithTimeout net url tmo w =
     (case fetch net url w of
        (Resolves r, w') \<Rightarrow> (Inr r, w')
      | (Throws n m, w') \<Rightarrow>
          if n = ''AbortError''
          then (Inl (RxNormAPIError (''Request timeout after '' @ string_of_nat tmo @ ''ms'')
                       (Some ''TIMEOUT'') None None), w')
          else (Inl (OtherError n m), w'))"

text \<open>The body of the \<^verbatim>\<open>try\<close> block of one attempt of \<^verbatim>\<open>fetchWithRetry\<close>.\<close>

definition attempt_once :: "net \<Rightarrow> string \<Rightarrow> RxNormConfig \<Rightarrow> world \<Rightarrow> (js_error + response) \<times> world" where
  "attempt_once net url config w =
     (case fetchWithTimeout net url (timeout config) w of
        (Inl e, w') \<Rightarrow> (Inl e, w')
      | (Inr r, w') \<Rightarrow>
          if \<not> ok r
          then (Inl (RxNormAPIError
                       (''HTTP '' @ string_of_nat (http_status r) @ '': '' @ statusText r)
                       (Some ''HTTP_ERROR'') (Some (http_status r)) None), w')
          else (Inr r, w'))"

text \<open>The test of the \<^verbatim>\<open>catch\<close> block: an API error whose status code is in 400..499.\<close>

definition is_client_error :: "js_error \<Rightarrow> bool" where
  "is_client_error e \<longleftrightarrow>
     is_RxNormAPIError e \<and>
     (case statusCode e of None \<Rightarrow> False | Some s \<Rightarrow> s \<noteq> 0 \<and> 400 \<le> s \<and> s < 500)"

function fetchWithRetry_loop ::
  "net \<Rightarrow> string \<Rightarrow> RxNormConfig \<Rightarrow> nat \<Rightarrow> js_error option \<Rightarrow> world \<Rightarrow> (js_error + response) \<times> world"
where
  "fetchWithRetry_loop net url config attempt lastError w =
     (if attempt \<le> retryAttempts config then
        (case attempt_once net url config w of
           (Inr r, w') \<Rightarrow> (Inr r, w')
         | (Inl e, w') \<Rightarrow>
             if is_client_error e then (Inl e, w')
             else fetchWithRetry_loop net url config (Suc attempt) (Some e)
                    (if attempt < retryAttempts config
                     then sleep (retryDelay config * attempt) w' else w'))
      else
        (Inl (RxNormAPIError
                (''Failed after '' @ string_of_nat (retryAttempts config) @ '' attempts: '' @
                 (case lastError of None \<Rightarrow> ''undefined'' | Some e \<Rightarrow> message e))
                (Some ''MAX_RETRIES_EXCEEDED'') None None), w))"
  by pat_completeness auto
termination
  by (relation "measure (\<lambda>(net, url, config, attempt, lastError, w). Suc (retryAttempts config) - attempt)") auto

definition fetchWithRetry :: "net \<Rightarrow> string \<Rightarrow> RxNormConfig \<Rightarrow> world \<Rightarrow> (js_error + response) \<times> world" where
  "fetchWithRetry net url config w = fetchWithRetry_loop net url config 1 None w"

text \<open>
  The \<^verbatim>\<open>catch\<close> block of \<^verbatim>\<open>searchDrug\<close>: an API error is rethrown with the drug name
  attached, anything else is wrapped as \<^verbatim>\<open>UNKNOWN_ERROR\<close>.
\<close>

definition searchDrug_catch :: "string \<Rightarrow> js_error \<Rightarrow> js_error" where
  "searchDrug_catch drugName e =
     (if is_RxNormAPIError e
      then RxNormAPIError (message e) (code e) (statusCode e) (Some drugName)
      else RxNormAPIError (''Unexpected error searching for drug: '' @ error_to_string e)
             (Some ''UNKNOWN_ERROR'') None (Some drugName))"

definition searchDrug ::
  "net \<Rightarrow> string \<Rightarrow> RxNormConfig \<Rightarrow> world \<Rightarrow> (js_error + string option) \<times> world"
where
  "searchDrug net drugName config w =
     (if drugName = [] \<or> trim drugName = []
      then (Inl (RxNormAPIError ''Drug name cannot be empty'' (Some ''INVALID_INPUT'') None None), w)
      else
        let encodedName = encodeURIComponent (trim drugName);
            url = baseUrl config @ ''/approximateTerm.json?term='' @ encodedName
        in case fetchWithRetry net url config w of
             (Inl e, w') \<Rightarrow> (Inl (searchDrug_catch drugName e), w')
           | (Inr r, w') \<Rightarrow>
               (case body r of
                  JsonThrows n m \<Rightarrow> (Inl (searchDrug_catch drugName (OtherError n m)), w')
                | RelatedResponse g \<Rightarrow> (Inr None, w')
                | ApproximateResponse None \<Rightarrow> (Inr None, w')
                | ApproximateResponse (Some g) \<Rightarrow>
                    (case candidate g of
                       None \<Rightarrow> (Inr None, w')
                     | Some [] \<Rightarrow> (Inr None, w')
                     | Some (c # cs) \<Rightarrow> (Inr (Some (candidate_rxcui c)), w'))))"

definition getGenericName_catch :: "js_error \<Rightarrow> js_error" where
  "getGenericName_catch e =
     (if is_RxNormAPIError e then e
      else RxNormAPIError (''Unexpected error getting generic name: '' @ error_to_string e)
             (Some ''UNKNOWN_ERROR'') None None)"

definition getGenericName ::
  "net \<Rightarrow> string \<Rightarrow> RxNormConfig \<Rightarrow> world \<Rightarrow> (js_error + string option) \<times> world"
where
  "getGenericName net rxcui_arg config w =
     (if rxcui_arg = [] \<or> trim rxcui_arg = []
      then (Inl (RxNormAPIError ''RxCUI cannot be empty'' (Some ''INVALID_INPUT'') None None), w)
      else
        let url = baseUrl config @ ''/rxcui/'' @ rxcui_arg @ ''/related.json?tty=IN''
        in case fetchWithRetry net url config w of
             (Inl e, w') \<Rightarrow> (Inl (getGenericName_catch e), w')
           | (Inr r, w') \<Rightarrow>
               (case body r of
                  JsonThrows n m \<Rightarrow> (Inl (getGenericName_catch (OtherError n m)), w')
                | ApproximateResponse g \<Rightarrow> (Inr None, w')
                | RelatedResponse None \<Rightarrow> (Inr None, w')
                | RelatedResponse (Some g) \<Rightarrow>
                    (case conceptGroup g of
                       None \<Rightarrow> (Inr None, w')
                     | Some [] \<Rightarrow> (Inr None, w')
                     | Some (cg # cgs) \<Rightarrow>
                         (case find (\<lambda>group. tty group = ''IN'') (cg # cgs) of
                            None \<Rightarrow> (Inr None, w')
                          | Some ingredientGroup \<Rightarrow>
                              (case conceptProperties ingredientGroup of
                                 None \<Rightarrow> (Inr None, w')
                               | Some [] \<Rightarrow> (Inr None, w')
                               | Some (p # ps) \<Rightarrow> (Inr (Some (concept_name p)), w'))))))"

text \<open>The test \<^verbatim>\<open>!x\<close> on a value of type \<^verbatim>\<open>string | null\<close>.\<close>

definition falsy :: "string option \<Rightarrow> bool" where
  "falsy x \<longleftrightarrow> x = None \<or> x = Some []"

definition normalizeDrugName_catch :: "string \<Rightarrow> js_error \<Rightarrow> NormalizationResult" where
  "normalizeDrugName_catch drugName e =
     (if is_RxNormAPIError e
      then \<lparr>originalName = drugName, genericName = None, rxcui = None, status = ERROR,
            errorMessage = Some (message e)\<rparr>
      else \<lparr>originalName = drugName, genericName = None, rxcui = None, status = ERROR,
            errorMessage = Some (''Unexpected error: '' @ error_to_string e)\<rparr>)"

definition normalizeDrugName ::
  "net \<Rightarrow> string \<Rightarrow> RxNormConfig \<Rightarrow> world \<Rightarrow> NormalizationResult \<times> world"
where
  "normalizeDrugName net drugName config w =
     (case searchDrug net drugName config w of
        (Inl e, w1) \<Rightarrow> (normalizeDrugName_catch drugName e, w1)
      | (Inr found, w1) \<Rightarrow>
          if falsy found
          then (\<lparr>originalName = drugName, genericName = None, rxcui = None, status = NOT_FOUND,
                  errorMessage = Some ''Drug not found in RxNorm database''\<rparr>, w1)
          else
            (case getGenericName net (the found) config w1 of
               (Inl e, w2) \<Rightarrow> (normalizeDrugName_catch drugName e, w2)
             | (Inr generic, w2) \<Rightarrow>
                 if falsy generic
                 then (\<lparr>originalName = drugName, genericName = None, rxcui = found,
                         status = NOT_FOUND,
                         errorMessage = Some ''Generic name not found for this drug''\<rparr>, w2)
                 else (\<lparr>originalName = drugName, genericName = generic, rxcui = found,
                         status = SUCCESS, errorMessage = None\<rparr>, w2)))"

text \<open>
  The batch. \<open>onProgress\<close> says whether a progress callback was supplied; each of its
  invocations is recorded in the trace with its three arguments.
\<close>

definition progress :: "nat \<Rightarrow> nat \<Rightarrow> string \<Rightarrow> world \<Rightarrow> world" where
  "progress completed tot current w = w\<lparr>trace := trace w @ [Progress completed tot current]\<rparr>"

definition batch_body ::
  "net \<Rightarrow> string list \<Rightarrow> bool \<Rightarrow> RxNormConfig \<Rightarrow> nat \<Rightarrow> world \<Rightarrow> NormalizationResult \<times> world"
where
  "batch_body net drugNames onProgress config i w =
     (let tot = length drugNames;
          drugName = drugNames ! i;
          w1 = (if onProgress then progress i tot drugName w else w);
          (result, w2) = normalizeDrugName net drugName config w1;
          w3 = (if i < length drugNames - 1 then sleep 100 w2 else w2)
      in (result, w3))"

function normalizeDrugNameBatch_loop ::
  "net \<Rightarrow> string list \<Rightarrow> bool \<Rightarrow> RxNormConfig \<Rightarrow> nat \<Rightarrow> NormalizationResult list \<Rightarrow> world
     \<Rightarrow> NormalizationResult list \<times> world"
where
  "normalizeDrugNameBatch_loop net drugNames onProgress config i results w =
     (if i < length drugNames then
        (case batch_body net drugNames onProgress config i w of
           (result, w') \<Rightarrow>
             normalizeDrugNameBatch_loop net drugNames onProgress config (Suc i)
               (results @ [result]) w')
      else (results, w))"
  by pat_completeness auto
termination
  by (relation "measure (\<lambda>(net, drugNames, onProgress, config, i, results, w). length drugNames - i)") auto

definition normalizeDrugNameBatch ::
  "net \<Rightarrow> string list \<Rightarrow> bool \<Rightarrow> RxNormConfig \<Rightarrow> world \<Rightarrow> NormalizationResult list \<times> world"
where
  "normalizeDrugNameBatch net drugNames onProgress config w =
     (let tot = length drugNames;
          (results, w') = normalizeDrugNameBatch_loop net drugNames onProgress config 0 [] w
      in (results, if onProgress then progress tot tot [] w' else w'))"

section \<open>\<^verbatim>\<open>csv-processor.ts\<close>: the join\<close>

text \<open>
  A row is modelled by what reading it under a key gives (\<^verbatim>\<open>row[key]\<close>): a string, a number
  or null for a column of the row (\<^verbatim>\<open>CSVRow\<close>); for a key the row inherits from
  \<^verbatim>\<open>Object.prototype\<close>, such as \<^verbatim>\<open>constructor\<close>, a value of another kind, which is truthy
  and of which the model keeps the string that \<^verbatim>\<open>String\<close> gives; and \<^verbatim>\<open>undefined\<close> for
  every other key. Numbers are the safe integers, of magnitude at most \<open>2\<^sup>5\<^sup>3 - 1\<close>, which
  \<^verbatim>\<open>String\<close> renders by their decimal numeral. The table of generic names maps names to
  names.
\<close>

typedef safe_integer = "{i :: int. - 9007199254740991 \<le> i \<and> i \<le> 9007199254740991}"
  by (rule exI [of _ 0]) simp

datatype js_value = Undefined | Null | Str string | Num safe_integer | Other string

type_synonym CSVRow = "string \<Rightarrow> js_value"

definition GENERIC_NAME_COLUMN :: string where
  "GENERIC_NAME_COLUMN = ''GENERIC_NAME''"

text \<open>\<^verbatim>\<open>String(v)\<close>, and the test \<^verbatim>\<open>!v\<close>, for a value read from a row.\<close>

definition js_String :: "js_value \<Rightarrow> string" where
  "js_String v =
     (case v of
        Undefined \<Rightarrow> ''undefined''
      | Null \<Rightarrow> ''null''
      | Str s \<Rightarrow> s
      | Num n \<Rightarrow> string_of_int (Rep_safe_integer n)
      | Other s \<Rightarrow> s)"

definition falsy_value :: "js_value \<Rightarrow> bool" where
  "falsy_value v =
     (case v of
        Undefined \<Rightarrow> True
      | Null \<Rightarrow> True
      | Str s \<Rightarrow> s = []
      | Num n \<Rightarrow> Rep_safe_integer n = 0
      | Other s \<Rightarrow> False)"

text \<open>\<^verbatim>\<open>String(v || '')\<close>.\<close>

definition string_or_empty :: "js_value \<Rightarrow> string" where
  "string_or_empty v = (if falsy_value v then [] else js_String v)"

text \<open>
  \<^verbatim>\<open>extractColumnValues\<close>: the values to normalise, in the order of their first occurrence
  (the insertion order of the \<^verbatim>\<open>Set\<close>).
\<close>

definition set_add :: "string list \<Rightarrow> string \<Rightarrow> string list" where
  "set_add values_so_far v = (if v \<in> set values_so_far then values_so_far else values_so_far @ [v])"

fun extractColumnValues_loop :: "CSVRow list \<Rightarrow> string \<Rightarrow> string list \<Rightarrow> string list" where
  "extractColumnValues_loop [] columnName values_so_far = values_so_far"
| "extractColumnValues_loop (row # rest) columnName values_so_far =
     (let v = row columnName in
        if v \<noteq> Null \<and> v \<noteq> Undefined \<and> v \<noteq> Str []
        then extractColumnValues_loop rest columnName (set_add values_so_far (trim (js_String v)))
        else extractColumnValues_loop rest columnName values_so_far)"

definition extractColumnValues :: "CSVRow list \<Rightarrow> string \<Rightarrow> string list" where
  "extractColumnValues data columnName = extractColumnValues_loop data columnName []"

text \<open>\<^verbatim>\<open>genericNames.get(k) || 'NOT_FOUND'\<close>.\<close>

definition get_or_not_found :: "(string \<Rightarrow> string option) \<Rightarrow> string \<Rightarrow> string" where
  "get_or_not_found genericNames k =
     (case genericNames k of
        None \<Rightarrow> ''NOT_FOUND''
      | Some v \<Rightarrow> if v = [] then ''NOT_FOUND'' else v)"

text \<open>
  \<^verbatim>\<open>addGenericNameColumn\<close>. The spread copies the columns of the row, and the new row
  inherits what the old one does: reading it gives what reading the old row gives, but
  under the added key.
\<close>

definition addGenericNameColumn ::
  "CSVRow list \<Rightarrow> string \<Rightarrow> (string \<Rightarrow> string option) \<Rightarrow> CSVRow list"
where
  "addGenericNameColumn originalData columnName genericNames =
     map (\<lambda>row.
            let drugName = trim (string_or_empty (row columnName));
                genericName = get_or_not_found genericNames drugName
            in row(GENERIC_NAME_COLUMN := Str genericName))
         originalData"

section \<open>Notions used to state the properties\<close>

text \<open>
  What one attempt of \<^verbatim>\<open>fetchWithRetry\<close> ends with, as a function of what its call of
  \<^verbatim>\<open>fetch\<close> did (\<open>attempt_once_eq\<close> below), and the error it ends with, if any.
\<close>

definition attempt_result :: "nat \<Rightarrow> fetch_outcome \<Rightarrow> js_error + response" where
  "attempt_result tmo out =
     (case out of
        Throws n m \<Rightarrow>
          if n = ''AbortError''
          then Inl (RxNormAPIError (''Request timeout after '' @ string_of_nat tmo @ ''ms'')
                      (Some ''TIMEOUT'') None None)
          else Inl (OtherError n m)
      | Resolves r \<Rightarrow>
          if \<not> ok r
          then Inl (RxNormAPIError
                      (''HTTP '' @ string_of_nat (http_status r) @ '': '' @ statusText r)
                      (Some ''HTTP_ERROR'') (Some (http_status r)) None)
          else Inr r)"

definition attempt_error :: "nat \<Rightarrow> fetch_outcome \<Rightarrow> js_error option" where
  "attempt_error tmo out = (case attempt_result tmo out of Inl e \<Rightarrow> Some e | Inr r \<Rightarrow> None)"

text \<open>
  The two kinds of failed attempt of the retry policy: a response with a status in 400..499,
  and every other failure (any other response that is not ok, a network error, a timeout).
\<close>

definition client_error_response :: "fetch_outcome \<Rightarrow> bool" where
  "client_error_response out =
     (case out of Throws n m \<Rightarrow> False | Resolves r \<Rightarrow> 400 \<le> http_status r \<and> http_status r < 500)"

definition retryable_failure :: "fetch_outcome \<Rightarrow> bool" where
  "retryable_failure out =
     (case out of Throws n m \<Rightarrow> True | Resolves r \<Rightarrow> \<not> ok r \<and> \<not> client_error_response out)"

text \<open>
  A configuration whose numbers the code handles exactly: the count of attempts, the
  timeout and every wait \<open>retryDelay \<times> k\<close> are safe integers.
\<close>

definition MAX_SAFE_INTEGER :: nat where
  "MAX_SAFE_INTEGER = 9007199254740991"

definition safe_config :: "RxNormConfig \<Rightarrow> bool" where
  "safe_config config \<longleftrightarrow>
     timeout config \<le> MAX_SAFE_INTEGER \<and> retryAttempts config \<le> MAX_SAFE_INTEGER \<and>
     retryDelay config * retryAttempts config \<le> MAX_SAFE_INTEGER"

text \<open>
  The schedule of \<open>n\<close> attempts, the first of them being attempt number \<open>k\<close>: a wait of
  \<open>delay \<times> k\<close> after attempt \<open>k\<close> when another attempt follows, no wait after the last.
\<close>

fun retry_schedule :: "string \<Rightarrow> nat \<Rightarrow> nat \<Rightarrow> nat \<Rightarrow> event list" where
  "retry_schedule url delay k 0 = []"
| "retry_schedule url delay k (Suc 0) = [Fetch url]"
| "retry_schedule url delay k (Suc (Suc n)) =
     Fetch url # Sleep (delay * k) # retry_schedule url delay (Suc k) (Suc n)"

text \<open>
  The progress reports and the waits among the events, and the events a run adds to the
  trace. Events are silent when there is no progress report among them and, if the
  configuration leaves no room for a retry, no wait either.
\<close>

fun is_progress :: "event \<Rightarrow> bool" where
  "is_progress (Progress c t n) = True"
| "is_progress (Fetch u) = False"
| "is_progress (Sleep ms) = False"

fun is_sleep :: "event \<Rightarrow> bool" where
  "is_sleep (Sleep ms) = True"
| "is_sleep (Fetch u) = False"
| "is_sleep (Progress c t n) = False"

definition emitted :: "world \<Rightarrow> world \<Rightarrow> event list" where
  "emitted w w' = drop (length (trace w)) (trace w')"

definition silent :: "RxNormConfig \<Rightarrow> event list \<Rightarrow> bool" where
  "silent config evs \<longleftrightarrow>
     filter is_progress evs = [] \<and> (retryAttempts config \<le> 1 \<longrightarrow> filter is_sleep evs = [])"

text \<open>
  The raw value of a cell as text: nothing for an absent or null cell, otherwise its string
  form. A table of generic names is well formed when, as in the specification, its keys and
  its entries are not empty.
\<close>

definition raw_text :: "js_value \<Rightarrow> string" where
  "raw_text v = (case v of Undefined \<Rightarrow> [] | Null \<Rightarrow> [] | _ \<Rightarrow> js_String v)"

definition is_zero_number :: "js_value \<Rightarrow> bool" where
  "is_zero_number v = (case v of Num n \<Rightarrow> Rep_safe_integer n = 0 | _ \<Rightarrow> False)"

definition well_formed_names :: "(string \<Rightarrow> string option) \<Rightarrow> bool" where
  "well_formed_names genericNames \<longleftrightarrow>
     (\<forall>k v. genericNames k = Some v \<longrightarrow> k \<noteq> [] \<and> v \<noteq> [])"

text \<open>
  The batch as the specification describes it, element by element: an element is announced
  to the callback, if there is one, and normalised; an element that has a successor is
  followed by one pause of 100 ms; the last element is followed by none.
\<close>

definition announce :: "bool \<Rightarrow> nat \<Rightarrow> nat \<Rightarrow> string \<Rightarrow> world \<Rightarrow> world" where
  "announce onProgress i tot current w = (if onProgress then progress i tot current w else w)"

fun paced_batch ::
  "net \<Rightarrow> RxNormConfig \<Rightarrow> bool \<Rightarrow> nat \<Rightarrow> nat \<Rightarrow> string list \<Rightarrow> world \<Rightarrow> world"
where
  "paced_batch net config onProgress tot i [] w = w"
| "paced_batch net config onProgress tot i [x] w =
     snd (normalizeDrugName net x config (announce onProgress i tot x w))"
| "paced_batch net config onProgress tot i (x # y # ys) w =
     paced_batch net config onProgress tot (Suc i) (y # ys)
       (sleep 100 (snd (normalizeDrugName net x config (announce onProgress i tot x w))))"

section \<open>Example services and inputs\<close>

text \<open>
  The initial world, and remote services for the scenarios of the specification: a known
  drug, an unknown one, an ingredient group that is empty or whose first name is blank, a
  service that always times out, a server error followed by a success, and a client error.
\<close>

definition w0 :: world where
  "w0 = \<lparr>calls = 0, trace = []\<rparr>"

definition respond :: "json_body \<Rightarrow> fetch_outcome" where
  "respond b = Resolves \<lparr>http_status = 200, statusText = ''OK'', body = b\<rparr>"

definition tylenol_candidates :: json_body where
  "tylenol_candidates =
     ApproximateResponse (Some \<lparr>candidate = Some [\<lparr>candidate_rxcui = ''202433''\<rparr>]\<rparr>)"

definition ingredient :: "string \<Rightarrow> json_body" where
  "ingredient n =
     RelatedResponse (Some \<lparr>conceptGroup =
       Some [\<lparr>tty = ''IN'', conceptProperties = Some [\<lparr>concept_name = n\<rparr>]\<rparr>]\<rparr>)"

definition net_tylenol :: net where
  "net_tylenol k url = (if k = 0 then respond tylenol_candidates else respond (ingredient ''acetaminophen''))"

definition net_no_candidates :: net where
  "net_no_candidates k url = respond (ApproximateResponse (Some \<lparr>candidate = Some []\<rparr>))"

definition net_blank_ingredient :: net where
  "net_blank_ingredient k url = (if k = 0 then respond tylenol_candidates else respond (ingredient []))"

definition net_no_ingredient :: net where
  "net_no_ingredient k url =
     (if k = 0 then respond tylenol_candidates
      else respond (RelatedResponse (Some \<lparr>conceptGroup = Some []\<rparr>)))"

definition net_timeout :: net where
  "net_timeout k url = Throws ''AbortError'' ''The operation was aborted.''"

definition net_500_then_200 :: net where
  "net_500_then_200 k url =
     (if k = 0
      then Resolves \<lparr>http_status = 500, statusText = ''Internal Server Error'', body = JsonThrows [] []\<rparr>
      else respond tylenol_candidates)"

definition net_404 :: net where
  "net_404 k url = Resolves \<lparr>http_status = 404, statusText = ''Not Found'', body = JsonThrows [] []\<rparr>"

definition net_ingredient_404 :: net where
  "net_ingredient_404 k url = (if k = 0 then respond tylenol_candidates else net_404 k url)"

text \<open>
  A row with the given columns (of the examples only the columns are read), and the number
  0 as a cell.
\<close>

definition row_of :: "(string \<times> js_value) list \<Rightarrow> CSVRow" where
  "row_of kvs k = (case map_of kvs k of Some v \<Rightarrow> v | None \<Rightarrow> Undefined)"

definition zero_cell :: js_value where
  "zero_cell = Num (Abs_safe_integer 0)"

section \<open>Auxiliary facts\<close>

text \<open>
  The recursive equations of the loops and of the decimal rendering are used only where
  they are named.
\<close>

declare string_of_nat.simps [simp del]
declare fetchWithRetry_loop.simps [simp del]
declare normalizeDrugNameBatch_loop.simps [simp del]

lemma fetchWithTimeout_eq:
  "fetchWithTimeout net url tmo w =
     (case net (calls w) url of
        Resolves r \<Rightarrow> Inr r
      | Throws n m \<Rightarrow>
          if n = ''AbortError''
          then Inl (RxNormAPIError (''Request timeout after '' @ string_of_nat tmo @ ''ms'')
                      (Some ''TIMEOUT'') None None)
          else Inl (OtherError n m),
      w\<lparr>calls := Suc (calls w), trace := trace w @ [Fetch url]\<rparr>)"
  unfolding fetchWithTimeout_def fetch_def
  by (simp split: fetch_outcome.split)

lemma attempt_once_eq:
  "attempt_once net url config w =
     (attempt_result (timeout config) (net (calls w) url),
      w\<lparr>calls := Suc (calls w), trace := trace w @ [Fetch url]\<rparr>)"
  unfolding attempt_once_def fetchWithTimeout_eq attempt_result_def
  by (simp split: fetch_outcome.split)

lemma retry_schedule_Suc:
  "0 < n \<Longrightarrow> retry_schedule url d k (Suc n) = Fetch url # Sleep (d * k) # retry_schedule url d (Suc k) n"
  by (cases n) simp_all

lemma loop_schedule:
  "fetchWithRetry_loop net url config a le w = (r, w') \<Longrightarrow>
     \<exists>k. calls w' = calls w + k \<and>
         trace w' = trace w @ retry_schedule url (retryDelay config) a k \<and>
         (a \<le> retryAttempts config \<longrightarrow> 1 \<le> k \<and> a + k \<le> Suc (retryAttempts config)) \<and>
         (retryAttempts config < a \<longrightarrow> k = 0)"
proof (induction net url config a le w arbitrary: r w' rule: fetchWithRetry_loop.induct)
  case (1 net url config attempt lastError w)
  let ?N = "retryAttempts config"
  let ?w1 = "w\<lparr>calls := Suc (calls w), trace := trace w @ [Fetch url]\<rparr>"
  let ?res = "attempt_result (timeout config) (net (calls w) url)"
  show ?case
  proof (cases "attempt \<le> ?N")
    case False
    with "1.prems" have "w' = w"
      by (simp add: fetchWithRetry_loop.simps)
    with False show ?thesis by (intro exI [of _ 0]) simp
  next
    case le: True
    show ?thesis
    proof (cases ?res)
      case (Inr resp)
      with le "1.prems" have "w' = ?w1"
        by (simp add: fetchWithRetry_loop.simps [of _ _ _ attempt] attempt_once_eq)
      with le show ?thesis by (intro exI [of _ 1]) simp
    next
      case (Inl e)
      show ?thesis
      proof (cases "is_client_error e")
        case True
        with Inl le "1.prems" have "w' = ?w1"
          by (simp add: fetchWithRetry_loop.simps [of _ _ _ attempt] attempt_once_eq)
        with le show ?thesis by (intro exI [of _ 1]) simp
      next
        case nc: False
        let ?w2 = "if attempt < ?N then sleep (retryDelay config * attempt) ?w1 else ?w1"
        from Inl le nc "1.prems"
        have rec: "fetchWithRetry_loop net url config (Suc attempt) (Some e) ?w2 = (r, w')"
          by (simp add: fetchWithRetry_loop.simps [of _ _ _ attempt] attempt_once_eq)
        have once: "(Inl e, ?w1) = attempt_once net url config w"
          by (simp add: attempt_once_eq Inl)
        have "\<exists>k. calls w' = calls ?w2 + k \<and>
                 trace w' = trace ?w2 @ retry_schedule url (retryDelay config) (Suc attempt) k \<and>
                 (Suc attempt \<le> ?N \<longrightarrow> 1 \<le> k \<and> Suc attempt + k \<le> Suc ?N) \<and>
                 (?N < Suc attempt \<longrightarrow> k = 0)"
          by (rule "1.IH" [OF le once refl nc rec])
        then obtain k where k: "calls w' = calls ?w2 + k"
          "trace w' = trace ?w2 @ retry_schedule url (retryDelay config) (Suc attempt) k"
          "Suc attempt \<le> ?N \<longrightarrow> 1 \<le> k \<and> Suc attempt + k \<le> Suc ?N"
          "?N < Suc attempt \<longrightarrow> k = 0"
          by blast
        show ?thesis
        proof (cases "attempt < ?N")
          case True
          with k have "0 < k" by simp
          with True k le show ?thesis
            by (intro exI [of _ "Suc k"]) (simp add: sleep_def retry_schedule_Suc)
        next
          case False
          with le have "attempt = ?N" by simp
          with k False show ?thesis
            by (intro exI [of _ 1]) simp
        qed
      qed
    qed
  qed
qed

lemma retryable_failure_result:
  "retryable_failure out \<Longrightarrow> \<exists>e. attempt_result tmo out = Inl e \<and> \<not> is_client_error e"
  by (cases out)
     (auto simp: retryable_failure_def attempt_result_def is_client_error_def
                 client_error_response_def)

lemma final_result:
  "\<not> retryable_failure out \<Longrightarrow>
     (case attempt_result tmo out of Inr r \<Rightarrow> True | Inl e \<Rightarrow> is_client_error e)"
  by (cases out)
     (auto simp: retryable_failure_def attempt_result_def is_client_error_def
                 client_error_response_def ok_def)

lemma loop_first_final:
  "a + j \<le> retryAttempts config \<Longrightarrow>
   \<forall>i<j. retryable_failure (net (calls w + i) url) \<Longrightarrow>
   \<not> retryable_failure (net (calls w + j) url) \<Longrightarrow>
   fst (fetchWithRetry_loop net url config a le w) =
     attempt_result (timeout config) (net (calls w + j) url) \<and>
   calls (snd (fetchWithRetry_loop net url config a le w)) = calls w + Suc j"
proof (induction j arbitrary: a le w)
  case 0
  from final_result [OF "0.prems"(3), of "timeout config"] "0.prems"(1)
  show ?case
    by (auto simp: fetchWithRetry_loop.simps [of _ _ _ a] attempt_once_eq split: sum.splits)
next
  case (Suc j)
  let ?w1 = "w\<lparr>calls := Suc (calls w), trace := trace w @ [Fetch url]\<rparr>"
  let ?w2 = "if a < retryAttempts config then sleep (retryDelay config * a) ?w1 else ?w1"
  from Suc.prems(2) have "retryable_failure (net (calls w + 0) url)" by blast
  then obtain e where e: "attempt_result (timeout config) (net (calls w) url) = Inl e"
    "\<not> is_client_error e"
    using retryable_failure_result [of "net (calls w) url" "timeout config"] by auto
  have c2: "calls ?w2 = Suc (calls w)" by (simp add: sleep_def)
  from Suc.prems(1) have a: "a \<le> retryAttempts config" by simp
  have unfold: "fetchWithRetry_loop net url config a le w =
                fetchWithRetry_loop net url config (Suc a) (Some e) ?w2"
    using a e by (simp add: fetchWithRetry_loop.simps [of _ _ _ a] attempt_once_eq)
  have "fst (fetchWithRetry_loop net url config (Suc a) (Some e) ?w2) =
          attempt_result (timeout config) (net (calls ?w2 + j) url) \<and>
        calls (snd (fetchWithRetry_loop net url config (Suc a) (Some e) ?w2)) = calls ?w2 + Suc j"
  proof (rule Suc.IH)
    show "Suc a + j \<le> retryAttempts config" using Suc.prems(1) by simp
    show "\<forall>i<j. retryable_failure (net (calls ?w2 + i) url)"
      using Suc.prems(2) unfolding c2 by auto
    show "\<not> retryable_failure (net (calls ?w2 + j) url)"
      using Suc.prems(3) unfolding c2 by simp
  qed
  then show ?case unfolding unfold c2 by simp
qed

lemma loop_all_fail:
  "\<forall>i < Suc (retryAttempts config) - a. retryable_failure (net (calls w + i) url) \<Longrightarrow>
   fst (fetchWithRetry_loop net url config a le w) =
     Inl (RxNormAPIError
            (''Failed after '' @ string_of_nat (retryAttempts config) @ '' attempts: '' @
             (case (if a \<le> retryAttempts config
                    then attempt_error (timeout config) (net (calls w + (retryAttempts config - a)) url)
                    else le) of
                None \<Rightarrow> ''undefined'' | Some e \<Rightarrow> message e))
            (Some ''MAX_RETRIES_EXCEEDED'') None None)"
proof (induction net url config a le w rule: fetchWithRetry_loop.induct)
  case (1 net url config attempt lastError w)
  let ?N = "retryAttempts config"
  let ?w1 = "w\<lparr>calls := Suc (calls w), trace := trace w @ [Fetch url]\<rparr>"
  let ?w2 = "if attempt < ?N then sleep (retryDelay config * attempt) ?w1 else ?w1"
  show ?case
  proof (cases "attempt \<le> ?N")
    case False
    then show ?thesis by (simp add: fetchWithRetry_loop.simps [of _ _ _ attempt])
  next
    case le: True
    then have "0 < Suc ?N - attempt" by simp
    with "1.prems" have "retryable_failure (net (calls w + 0) url)" by blast
    then obtain e where e: "attempt_result (timeout config) (net (calls w) url) = Inl e"
      "\<not> is_client_error e"
      using retryable_failure_result [of "net (calls w) url" "timeout config"] by auto
    have c2: "calls ?w2 = Suc (calls w)" by (simp add: sleep_def)
    have once: "(Inl e, ?w1) = attempt_once net url config w"
      by (simp add: attempt_once_eq e)
    have unfold: "fetchWithRetry_loop net url config attempt lastError w =
                  fetchWithRetry_loop net url config (Suc attempt) (Some e) ?w2"
      using le e by (simp add: fetchWithRetry_loop.simps [of _ _ _ attempt] attempt_once_eq)
    have rest: "\<forall>i < Suc ?N - Suc attempt. retryable_failure (net (calls ?w2 + i) url)"
    proof (intro allI impI)
      fix i assume "i < Suc ?N - Suc attempt"
      then have "Suc i < Suc ?N - attempt" by simp
      with "1.prems" have "retryable_failure (net (calls w + Suc i) url)" by blast
      then show "retryable_failure (net (calls ?w2 + i) url)" unfolding c2 by simp
    qed
    note IH = "1.IH" [OF le once refl e(2) rest]
    show ?thesis
    proof (cases "Suc attempt \<le> ?N")
      case True
      then have "calls ?w2 + (?N - Suc attempt) = calls w + (?N - attempt)"
        unfolding c2 by simp
      with IH True le show ?thesis unfolding unfold by simp
    next
      case False
      with le have "attempt = ?N" by simp
      with IH False show ?thesis unfolding unfold
        by (simp add: attempt_error_def e)
    qed
  qed
qed

lemma retry_schedule_no_progress: "filter is_progress (retry_schedule url d k n) = []"
  by (induction url d k n rule: retry_schedule.induct) simp_all

lemma fetchWithRetry_frame:
  assumes "fetchWithRetry net url config w = (r, w')"
  shows "\<exists>k. k \<le> retryAttempts config \<and> calls w' = calls w + k \<and>
             trace w' = trace w @ retry_schedule url (retryDelay config) 1 k"
proof -
  from assms obtain k where k: "calls w' = calls w + k"
    "trace w' = trace w @ retry_schedule url (retryDelay config) 1 k"
    "1 \<le> retryAttempts config \<longrightarrow> 1 \<le> k \<and> 1 + k \<le> Suc (retryAttempts config)"
    "retryAttempts config < 1 \<longrightarrow> k = 0"
    unfolding fetchWithRetry_def using loop_schedule by blast
  then have "k \<le> retryAttempts config" by (cases "1 \<le> retryAttempts config") auto
  with k show ?thesis by blast
qed

lemma retry_schedule_no_sleep: "n \<le> 1 \<Longrightarrow> filter is_sleep (retry_schedule url d k n) = []"
  by (induction url d k n rule: retry_schedule.induct) simp_all

lemma silent_Nil: "silent config []"
  by (simp add: silent_def)

lemma silent_append: "silent config xs \<Longrightarrow> silent config ys \<Longrightarrow> silent config (xs @ ys)"
  by (simp add: silent_def)

lemma fetchWithRetry_quiet:
  assumes "fetchWithRetry net url config w = (r, w')"
  shows "\<exists>evs. trace w' = trace w @ evs \<and> silent config evs"
proof -
  from fetchWithRetry_frame [OF assms] obtain k where
    k: "k \<le> retryAttempts config"
       "trace w' = trace w @ retry_schedule url (retryDelay config) 1 k"
    by blast
  have "silent config (retry_schedule url (retryDelay config) 1 k)"
    using k(1) by (simp add: silent_def retry_schedule_no_progress retry_schedule_no_sleep)
  with k(2) show ?thesis by blast
qed

lemma searchDrug_quiet:
  assumes "searchDrug net drugName config w = (r, w')"
  shows "\<exists>evs. trace w' = trace w @ evs \<and> silent config evs"
proof (cases "drugName = [] \<or> trim drugName = []")
  case True
  with assms have "w' = w" by (auto simp: searchDrug_def)
  then show ?thesis using silent_Nil by simp
next
  case False
  let ?url = "baseUrl config @ ''/approximateTerm.json?term='' @ encodeURIComponent (trim drugName)"
  obtain r1 w1 where f: "fetchWithRetry net ?url config w = (r1, w1)" by fastforce
  with assms False have "w' = w1"
    by (auto simp: searchDrug_def Let_def
             split: sum.splits json_body.splits option.splits list.splits)
  with fetchWithRetry_quiet [OF f] show ?thesis by simp
qed

lemma getGenericName_quiet:
  assumes "getGenericName net ident config w = (r, w')"
  shows "\<exists>evs. trace w' = trace w @ evs \<and> silent config evs"
proof (cases "ident = [] \<or> trim ident = []")
  case True
  with assms have "w' = w" by (auto simp: getGenericName_def)
  then show ?thesis using silent_Nil by simp
next
  case False
  let ?url = "baseUrl config @ ''/rxcui/'' @ ident @ ''/related.json?tty=IN''"
  obtain r1 w1 where f: "fetchWithRetry net ?url config w = (r1, w1)" by fastforce
  with assms False have "w' = w1"
    by (auto simp: getGenericName_def Let_def
             split: sum.splits json_body.splits option.splits list.splits)
  with fetchWithRetry_quiet [OF f] show ?thesis by simp
qed

lemma normalizeDrugName_world:
  "snd (normalizeDrugName net drugName config w) = snd (searchDrug net drugName config w) \<or>
   snd (normalizeDrugName net drugName config w) =
     snd (getGenericName net (the (projr (fst (searchDrug net drugName config w)))) config
            (snd (searchDrug net drugName config w)))"
  by (auto simp: normalizeDrugName_def split: prod.splits sum.splits)

lemma normalizeDrugName_quiet:
  assumes "normalizeDrugName net drugName config w = (r, w')"
  shows "\<exists>evs. trace w' = trace w @ evs \<and> silent config evs"
proof -
  obtain r1 w1 where s: "searchDrug net drugName config w = (r1, w1)" by fastforce
  from searchDrug_quiet [OF s] obtain evs1
    where e1: "trace w1 = trace w @ evs1" "silent config evs1" by blast
  obtain r2 w2 where g: "getGenericName net (the (projr r1)) config w1 = (r2, w2)" by fastforce
  from getGenericName_quiet [OF g] obtain evs2
    where e2: "trace w2 = trace w1 @ evs2" "silent config evs2" by blast
  from normalizeDrugName_world [of net drugName config w] assms s g
  have "w' = w1 \<or> w' = w2" by simp
  then show ?thesis
  proof
    assume "w' = w1" with e1 show ?thesis by blast
  next
    assume "w' = w2"
    with e1 e2 have "trace w' = trace w @ (evs1 @ evs2)" "silent config (evs1 @ evs2)"
      by (simp_all add: silent_append)
    then show ?thesis by blast
  qed
qed

lemma normalizeDrugName_originalName:
  "originalName (fst (normalizeDrugName net drugName config w)) = drugName"
  by (simp add: normalizeDrugName_def normalizeDrugName_catch_def
           split: prod.splits sum.splits)

lemma batch_body_facts:
  assumes "batch_body net drugNames onProgress config i w = (result, w3)"
  shows "originalName result = drugNames ! i \<and>
         (\<exists>evs. trace w3 = trace w @ evs \<and>
            filter is_progress evs =
              (if onProgress then [Progress i (length drugNames) (drugNames ! i)] else []) \<and>
            (retryAttempts config \<le> 1 \<longrightarrow>
               filter is_sleep evs = (if i < length drugNames - 1 then [Sleep 100] else [])))"
proof -
  let ?w1 = "if onProgress then progress i (length drugNames) (drugNames ! i) w else w"
  obtain r2 w2 where n: "normalizeDrugName net (drugNames ! i) config ?w1 = (r2, w2)"
    by fastforce
  from normalizeDrugName_quiet [OF n] obtain evs
    where evs: "trace w2 = trace ?w1 @ evs" "silent config evs" by blast
  from assms n have res: "result = r2"
    and w3: "w3 = (if i < length drugNames - 1 then sleep 100 w2 else w2)"
    by (simp_all add: batch_body_def Let_def)
  from n normalizeDrugName_originalName [of net "drugNames ! i" config ?w1] res
  have "originalName result = drugNames ! i" by simp
  moreover
  let ?pre = "if onProgress then [Progress i (length drugNames) (drugNames ! i)] else []"
  let ?post = "if i < length drugNames - 1 then [Sleep 100] else []"
  have "trace w3 = trace w @ (?pre @ evs @ ?post)"
    using w3 evs(1) by (simp add: progress_def sleep_def)
  moreover have "filter is_progress (?pre @ evs @ ?post) = ?pre"
    using evs(2) by (simp add: silent_def)
  moreover have "retryAttempts config \<le> 1 \<longrightarrow> filter is_sleep (?pre @ evs @ ?post) = ?post"
    using evs(2) by (simp add: silent_def)
  ultimately show ?thesis by blast
qed

lemma batch_loop_facts:
  "i \<le> length drugNames \<Longrightarrow>
   normalizeDrugNameBatch_loop net drugNames onProgress config i results w = (rs, w') \<Longrightarrow>
   map originalName rs = map originalName results @ drop i drugNames \<and>
   (\<exists>evs. trace w' = trace w @ evs \<and>
      filter is_progress evs =
        (if onProgress
         then map (\<lambda>j. Progress j (length drugNames) (drugNames ! j)) [i..<length drugNames]
         else []) \<and>
      (retryAttempts config \<le> 1 \<longrightarrow>
         filter is_sleep evs = replicate (length drugNames - 1 - i) (Sleep 100)))"
proof (induction net drugNames onProgress config i results w arbitrary: rs w'
       rule: normalizeDrugNameBatch_loop.induct)
  case (1 net drugNames onProgress config i results w)
  show ?case
  proof (cases "i < length drugNames")
    case False
    then have "normalizeDrugNameBatch_loop net drugNames onProgress config i results w = (results, w)"
      by (subst normalizeDrugNameBatch_loop.simps) simp
    with "1.prems" False show ?thesis by simp
  next
    case lt: True
    obtain result w3 where b: "batch_body net drugNames onProgress config i w = (result, w3)"
      by fastforce
    from batch_body_facts [OF b] obtain evs1 where
      on: "originalName result = drugNames ! i" and
      t1: "trace w3 = trace w @ evs1" and
      p1: "filter is_progress evs1 =
             (if onProgress then [Progress i (length drugNames) (drugNames ! i)] else [])" and
      s1: "retryAttempts config \<le> 1 \<longrightarrow>
             filter is_sleep evs1 = (if i < length drugNames - 1 then [Sleep 100] else [])"
      by blast
    from lt b "1.prems"(2)
    have rec: "normalizeDrugNameBatch_loop net drugNames onProgress config (Suc i)
                 (results @ [result]) w3 = (rs, w')"
      by (simp add: normalizeDrugNameBatch_loop.simps [of _ _ _ _ i])
    from lt have "Suc i \<le> length drugNames" by simp
    from "1.IH" [OF lt b [symmetric] this rec] obtain evs2 where
      names: "map originalName rs = map originalName (results @ [result]) @ drop (Suc i) drugNames"
      and t2: "trace w' = trace w3 @ evs2"
      and p2: "filter is_progress evs2 =
             (if onProgress
              then map (\<lambda>j. Progress j (length drugNames) (drugNames ! j)) [Suc i..<length drugNames]
              else [])"
      and s2: "retryAttempts config \<le> 1 \<longrightarrow>
             filter is_sleep evs2 = replicate (length drugNames - 1 - Suc i) (Sleep 100)"
      by blast
    from names on lt
    have "map originalName rs = map originalName results @ drop i drugNames"
      by (simp add: Cons_nth_drop_Suc)
    moreover have "trace w' = trace w @ (evs1 @ evs2)" using t1 t2 by simp
    moreover have "filter is_progress (evs1 @ evs2) =
        (if onProgress
         then map (\<lambda>j. Progress j (length drugNames) (drugNames ! j)) [i..<length drugNames]
         else [])"
      using p1 p2 lt by (simp add: upt_conv_Cons)
    moreover have "retryAttempts config \<le> 1 \<longrightarrow>
        filter is_sleep (evs1 @ evs2) = replicate (length drugNames - 1 - i) (Sleep 100)"
    proof
      assume r: "retryAttempts config \<le> 1"
      show "filter is_sleep (evs1 @ evs2) = replicate (length drugNames - 1 - i) (Sleep 100)"
      proof (cases "i < length drugNames - 1")
        case True
        then have "length drugNames - 1 - i = Suc (length drugNames - 1 - Suc i)" by simp
        with True r s1 s2 show ?thesis by simp
      next
        case False
        with r s1 s2 show ?thesis by simp
      qed
    qed
    ultimately show ?thesis by blast
  qed
qed

lemma batch_loop_paced:
  "i \<le> length drugNames \<Longrightarrow>
   snd (normalizeDrugNameBatch_loop net drugNames onProgress config i results w) =
     paced_batch net config onProgress (length drugNames) i (drop i drugNames) w"
proof (induction net drugNames onProgress config i results w
       rule: normalizeDrugNameBatch_loop.induct)
  case (1 net drugNames onProgress config i results w)
  show ?case
  proof (cases "i < length drugNames")
    case False
    then have "normalizeDrugNameBatch_loop net drugNames onProgress config i results w = (results, w)"
      by (subst normalizeDrugNameBatch_loop.simps) simp
    with False "1.prems" show ?thesis by simp
  next
    case lt: True
    let ?x = "drugNames ! i"
    let ?w2 = "snd (normalizeDrugName net ?x config (announce onProgress i (length drugNames) ?x w))"
    let ?w3 = "if i < length drugNames - 1 then sleep 100 ?w2 else ?w2"
    have "batch_body net drugNames onProgress config i w =
            (fst (normalizeDrugName net ?x config (announce onProgress i (length drugNames) ?x w)), ?w3)"
      by (simp add: batch_body_def Let_def announce_def case_prod_beta)
    then obtain result where b: "batch_body net drugNames onProgress config i w = (result, ?w3)"
      by blast
    from lt have le: "Suc i \<le> length drugNames" by simp
    have unfold: "snd (normalizeDrugNameBatch_loop net drugNames onProgress config i results w) =
        paced_batch net config onProgress (length drugNames) (Suc i) (drop (Suc i) drugNames) ?w3"
      using "1.IH" [OF lt b [symmetric] le] lt b
      by (simp add: normalizeDrugNameBatch_loop.simps [of _ _ _ _ i])
    have split: "drop i drugNames = ?x # drop (Suc i) drugNames"
      using lt by (simp add: Cons_nth_drop_Suc)
    show ?thesis
    proof (cases "drop (Suc i) drugNames")
      case Nil
      then have "\<not> i < length drugNames - 1" by simp
      with unfold Nil split show ?thesis by simp
    next
      case (Cons y ys)
      then have "Suc i < length drugNames" by (cases "Suc i < length drugNames") simp_all
      then have "i < length drugNames - 1" by simp
      with unfold Cons split show ?thesis by simp
    qed
  qed
qed

lemmas example_defs = w0_def respond_def tylenol_candidates_def ingredient_def net_tylenol_def
  net_no_candidates_def net_blank_ingredient_def net_no_ingredient_def net_timeout_def
  net_500_then_200_def net_404_def

lemmas eval_simps = normalizeDrugName_def normalizeDrugName_catch_def searchDrug_def
  searchDrug_catch_def getGenericName_def getGenericName_catch_def falsy_def
  fetchWithRetry_def fetchWithRetry_loop.simps attempt_once_eq attempt_result_def
  is_client_error_def ok_def sleep_def trim_def is_white_space_def encodeURIComponent_def
  encode_unit_def is_uri_unreserved_def percent_byte_def hex_char_def digit_char_def
  DEFAULT_RXNORM_CONFIG_def Let_def string_of_nat.simps

lemma loop_all_fail_calls:
  "\<forall>i < Suc (retryAttempts config) - a. retryable_failure (net (calls w + i) url) \<Longrightarrow>
   calls (snd (fetchWithRetry_loop net url config a le w)) =
     calls w + (Suc (retryAttempts config) - a)"
proof (induction net url config a le w rule: fetchWithRetry_loop.induct)
  case (1 net url config attempt lastError w)
  let ?N = "retryAttempts config"
  let ?w1 = "w\<lparr>calls := Suc (calls w), trace := trace w @ [Fetch url]\<rparr>"
  let ?w2 = "if attempt < ?N then sleep (retryDelay config * attempt) ?w1 else ?w1"
  show ?case
  proof (cases "attempt \<le> ?N")
    case False
    then show ?thesis by (simp add: fetchWithRetry_loop.simps [of _ _ _ attempt])
  next
    case le: True
    then have "0 < Suc ?N - attempt" by simp
    with "1.prems" have "retryable_failure (net (calls w + 0) url)" by blast
    then obtain e where e: "attempt_result (timeout config) (net (calls w) url) = Inl e"
      "\<not> is_client_error e"
      using retryable_failure_result [of "net (calls w) url" "timeout config"] by auto
    have c2: "calls ?w2 = Suc (calls w)" by (simp add: sleep_def)
    have once: "(Inl e, ?w1) = attempt_once net url config w"
      by (simp add: attempt_once_eq e)
    have unfold: "fetchWithRetry_loop net url config attempt lastError w =
                  fetchWithRetry_loop net url config (Suc attempt) (Some e) ?w2"
      using le e by (simp add: fetchWithRetry_loop.simps [of _ _ _ attempt] attempt_once_eq)
    have rest: "\<forall>i < Suc ?N - Suc attempt. retryable_failure (net (calls ?w2 + i) url)"
    proof (intro allI impI)
      fix i assume "i < Suc ?N - Suc attempt"
      then have "Suc i < Suc ?N - attempt" by simp
      with "1.prems" have "retryable_failure (net (calls w + Suc i) url)" by blast
      then show "retryable_failure (net (calls ?w2 + i) url)" unfolding c2 by simp
    qed
    from "1.IH" [OF le once refl e(2) rest] le show ?thesis
      unfolding unfold c2 by simp
  qed
qed

lemma searchDrug_raises:
  "searchDrug net drugName config w = (Inl e, w1) \<Longrightarrow> is_RxNormAPIError e"
  by (auto simp: searchDrug_def searchDrug_catch_def Let_def
           split: if_splits prod.splits sum.splits json_body.splits option.splits list.splits)

lemma getGenericName_raises:
  "getGenericName net ident config w = (Inl e, w1) \<Longrightarrow> is_RxNormAPIError e"
  by (auto simp: getGenericName_def getGenericName_catch_def Let_def
           split: if_splits prod.splits sum.splits json_body.splits option.splits list.splits)

lemma getGenericName_empty:
  "getGenericName net [] config w =
     (Inl (RxNormAPIError ''RxCUI cannot be empty'' (Some ''INVALID_INPUT'') None None), w)"
  by (simp add: getGenericName_def)

lemma batch_length:
  "length (fst (normalizeDrugNameBatch net drugNames onProgress config w)) = length drugNames"
proof -
  obtain rs w' where l: "normalizeDrugNameBatch_loop net drugNames onProgress config 0 [] w = (rs, w')"
    by fastforce
  from batch_loop_facts [OF _ l] have "map originalName rs = drugNames" by simp
  then have "length rs = length drugNames" by (metis length_map)
  with l show ?thesis by (simp add: normalizeDrugNameBatch_def Let_def)
qed

lemma all_timeouts_result:
  assumes "trim drugName \<noteq> []" and "\<forall>k u. \<exists>m. net k u = Throws ''AbortError'' m"
  shows "fst (normalizeDrugName net drugName config w) =
           \<lparr>originalName = drugName, genericName = None, rxcui = None, status = ERROR,
            errorMessage = Some (''Failed after '' @ string_of_nat (retryAttempts config) @
              '' attempts: '' @
              (if 1 \<le> retryAttempts config
               then ''Request timeout after '' @ string_of_nat (timeout config) @ ''ms''
               else ''undefined''))\<rparr>"
proof -
  let ?url = "baseUrl config @ ''/approximateTerm.json?term='' @ encodeURIComponent (trim drugName)"
  let ?msg = "''Failed after '' @ string_of_nat (retryAttempts config) @ '' attempts: '' @
              (if 1 \<le> retryAttempts config
               then ''Request timeout after '' @ string_of_nat (timeout config) @ ''ms''
               else ''undefined'')"
  have ret: "retryable_failure (net k u)" for k u
    using assms(2) [rule_format, of k u] by (auto simp: retryable_failure_def)
  have err: "attempt_error (timeout config) (net k u) =
      Some (RxNormAPIError (''Request timeout after '' @ string_of_nat (timeout config) @ ''ms'')
              (Some ''TIMEOUT'') None None)" for k u
    using assms(2) [rule_format, of k u] by (auto simp: attempt_error_def attempt_result_def)
  have "fst (fetchWithRetry net ?url config w) =
          Inl (RxNormAPIError ?msg (Some ''MAX_RETRIES_EXCEEDED'') None None)"
    unfolding fetchWithRetry_def
    by (subst loop_all_fail) (simp_all add: ret err del: One_nat_def)
  then obtain w1 where f: "fetchWithRetry net ?url config w =
      (Inl (RxNormAPIError ?msg (Some ''MAX_RETRIES_EXCEEDED'') None None), w1)"
    by (metis prod.collapse)
  from assms(1) have ne: "drugName \<noteq> []" by (auto simp: trim_def)
  have "searchDrug net drugName config w =
      (Inl (RxNormAPIError ?msg (Some ''MAX_RETRIES_EXCEEDED'') None (Some drugName)), w1)"
    using ne assms(1) f by (simp add: searchDrug_def searchDrug_catch_def Let_def)
  then show ?thesis
    by (simp add: normalizeDrugName_def normalizeDrugName_catch_def)
qed

lemmas example_defs2 = example_defs net_ingredient_404_def row_of_def

lemma run_search_tylenol:
  "searchDrug net_tylenol ''Tylenol'' DEFAULT_RXNORM_CONFIG w0 =
     (Inr (Some ''202433''),
      \<lparr>calls = 1,
       trace = [Fetch ''https://rxnav.nlm.nih.gov/REST/approximateTerm.json?term=Tylenol'']\<rparr>)"
  by (simp add: eval_simps example_defs)

lemma run_generic_tylenol:
  "getGenericName net_tylenol ''202433'' DEFAULT_RXNORM_CONFIG
     \<lparr>calls = 1,
      trace = [Fetch ''https://rxnav.nlm.nih.gov/REST/approximateTerm.json?term=Tylenol'']\<rparr> =
     (Inr (Some ''acetaminophen''),
      \<lparr>calls = 2,
       trace = [Fetch ''https://rxnav.nlm.nih.gov/REST/approximateTerm.json?term=Tylenol'',
                Fetch ''https://rxnav.nlm.nih.gov/REST/rxcui/202433/related.json?tty=IN'']\<rparr>)"
  by (simp add: eval_simps example_defs)

lemma run_search_unknown:
  "searchDrug net_no_candidates ''xyz-not-a-drug'' DEFAULT_RXNORM_CONFIG w0 =
     (Inr None,
      \<lparr>calls = 1,
       trace = [Fetch ''https://rxnav.nlm.nih.gov/REST/approximateTerm.json?term=xyz-not-a-drug'']\<rparr>)"
  by (simp add: eval_simps example_defs)

lemma run_search_no_ingredient:
  "searchDrug net_no_ingredient ''Tylenol'' DEFAULT_RXNORM_CONFIG w0 =
     (Inr (Some ''202433''),
      \<lparr>calls = 1,
       trace = [Fetch ''https://rxnav.nlm.nih.gov/REST/approximateTerm.json?term=Tylenol'']\<rparr>)"
  by (simp add: eval_simps example_defs)

lemma run_generic_no_ingredient:
  "getGenericName net_no_ingredient ''202433'' DEFAULT_RXNORM_CONFIG
     \<lparr>calls = 1,
      trace = [Fetch ''https://rxnav.nlm.nih.gov/REST/approximateTerm.json?term=Tylenol'']\<rparr> =
     (Inr None,
      \<lparr>calls = 2,
       trace = [Fetch ''https://rxnav.nlm.nih.gov/REST/approximateTerm.json?term=Tylenol'',
                Fetch ''https://rxnav.nlm.nih.gov/REST/rxcui/202433/related.json?tty=IN'']\<rparr>)"
  by (simp add: eval_simps example_defs)

lemma run_search_blank_ingredient:
  "searchDrug net_blank_ingredient ''Tylenol'' DEFAULT_RXNORM_CONFIG w0 =
     (Inr (Some ''202433''),
      \<lparr>calls = 1,
       trace = [Fetch ''https://rxnav.nlm.nih.gov/REST/approximateTerm.json?term=Tylenol'']\<rparr>)"
  by (simp add: eval_simps example_defs)

lemma run_generic_blank_ingredient:
  "getGenericName net_blank_ingredient ''202433'' DEFAULT_RXNORM_CONFIG
     \<lparr>calls = 1,
      trace = [Fetch ''https://rxnav.nlm.nih.gov/REST/approximateTerm.json?term=Tylenol'']\<rparr> =
     (Inr (Some []),
      \<lparr>calls = 2,
       trace = [Fetch ''https://rxnav.nlm.nih.gov/REST/approximateTerm.json?term=Tylenol'',
                Fetch ''https://rxnav.nlm.nih.gov/REST/rxcui/202433/related.json?tty=IN'']\<rparr>)"
  by (simp add: eval_simps example_defs)

lemma run_normalize_tylenol:
  "fst (normalizeDrugName net_tylenol ''Tylenol'' DEFAULT_RXNORM_CONFIG w0) =
     \<lparr>originalName = ''Tylenol'', genericName = Some ''acetaminophen'', rxcui = Some ''202433'',
      status = SUCCESS, errorMessage = None\<rparr>"
  by (simp add: eval_simps example_defs)

lemma run_normalize_unknown:
  "fst (normalizeDrugName net_no_candidates ''xyz-not-a-drug'' DEFAULT_RXNORM_CONFIG w0) =
     \<lparr>originalName = ''xyz-not-a-drug'', genericName = None, rxcui = None,
      status = NOT_FOUND, errorMessage = Some ''Drug not found in RxNorm database''\<rparr>"
  by (simp add: eval_simps example_defs)

lemma run_normalize_blank_ingredient:
  "fst (normalizeDrugName net_blank_ingredient ''Tylenol'' DEFAULT_RXNORM_CONFIG w0) =
     \<lparr>originalName = ''Tylenol'', genericName = None, rxcui = Some ''202433'',
      status = NOT_FOUND, errorMessage = Some ''Generic name not found for this drug''\<rparr>"
  by (simp add: eval_simps example_defs)

lemma run_normalize_timeout:
  "fst (normalizeDrugName net_timeout ''Tylenol'' DEFAULT_RXNORM_CONFIG w0) =
     \<lparr>originalName = ''Tylenol'', genericName = None, rxcui = None, status = ERROR,
      errorMessage = Some ''Failed after 3 attempts: Request timeout after 10000ms''\<rparr>"
  by (simp add: eval_simps example_defs)

lemma run_search_404:
  "searchDrug net_404 ''Tylenol'' DEFAULT_RXNORM_CONFIG w0 =
     (Inl (RxNormAPIError ''HTTP 404: Not Found'' (Some ''HTTP_ERROR'') (Some 404) (Some ''Tylenol'')),
      \<lparr>calls = 1,
       trace = [Fetch ''https://rxnav.nlm.nih.gov/REST/approximateTerm.json?term=Tylenol'']\<rparr>)"
  by (simp add: eval_simps example_defs)

lemma run_search_ingredient_404:
  "searchDrug net_ingredient_404 ''Tylenol'' DEFAULT_RXNORM_CONFIG w0 =
     (Inr (Some ''202433''),
      \<lparr>calls = 1,
       trace = [Fetch ''https://rxnav.nlm.nih.gov/REST/approximateTerm.json?term=Tylenol'']\<rparr>)"
  by (simp add: eval_simps example_defs2)

lemma run_generic_ingredient_404:
  "getGenericName net_ingredient_404 ''202433'' DEFAULT_RXNORM_CONFIG
     \<lparr>calls = 1,
      trace = [Fetch ''https://rxnav.nlm.nih.gov/REST/approximateTerm.json?term=Tylenol'']\<rparr> =
     (Inl (RxNormAPIError ''HTTP 404: Not Found'' (Some ''HTTP_ERROR'') (Some 404) None),
      \<lparr>calls = 2,
       trace = [Fetch ''https://rxnav.nlm.nih.gov/REST/approximateTerm.json?term=Tylenol'',
                Fetch ''https://rxnav.nlm.nih.gov/REST/rxcui/202433/related.json?tty=IN'']\<rparr>)"
  by (simp add: eval_simps example_defs2)

lemma string_of_nat_3: "string_of_nat 3 = ''3''"
  by (simp add: string_of_nat.simps digit_char_def)

lemma string_of_nat_10000: "string_of_nat 10000 = ''10000''"
  by (simp add: string_of_nat.simps digit_char_def)

lemma retry_schedule_3:
  "retry_schedule url d 1 3 = [Fetch url, Sleep d, Fetch url, Sleep (d * 2), Fetch url]"
  by (simp add: numeral_3_eq_3)

lemma run_retry_timeout:
  "fetchWithRetry net_timeout ''u'' DEFAULT_RXNORM_CONFIG w0 =
     (Inl (RxNormAPIError ''Failed after 3 attempts: Request timeout after 10000ms''
             (Some ''MAX_RETRIES_EXCEEDED'') None None),
      \<lparr>calls = 3,
       trace = [Fetch ''u'', Sleep 1000, Fetch ''u'', Sleep 2000, Fetch ''u'']\<rparr>)"
  by (simp add: eval_simps example_defs)

lemma run_normalize_blank:
  "normalizeDrugName net_timeout ''  '' DEFAULT_RXNORM_CONFIG w0 =
     (\<lparr>originalName = ''  '', genericName = None, rxcui = None, status = ERROR,
       errorMessage = Some ''Drug name cannot be empty''\<rparr>, w0)"
  by (simp add: normalizeDrugName_def normalizeDrugName_catch_def searchDrug_def trim_def
        is_white_space_def)

lemma string_of_nat_0: "string_of_nat 0 = ''0''"
  by (simp add: string_of_nat.simps digit_char_def)

lemma safe_config_default: "safe_config DEFAULT_RXNORM_CONFIG"
  by (simp add: safe_config_def MAX_SAFE_INTEGER_def DEFAULT_RXNORM_CONFIG_def)

lemma safe_config_zero: "safe_config (DEFAULT_RXNORM_CONFIG\<lparr>retryAttempts := 0\<rparr>)"
  by (simp add: safe_config_def MAX_SAFE_INTEGER_def DEFAULT_RXNORM_CONFIG_def)

lemma run_retry_zero:
  "fetchWithRetry net_timeout ''u'' (DEFAULT_RXNORM_CONFIG\<lparr>retryAttempts := 0\<rparr>) w0 =
     (Inl (RxNormAPIError ''Failed after 0 attempts: undefined''
             (Some ''MAX_RETRIES_EXCEEDED'') None None), w0)"
  by (simp add: fetchWithRetry_def fetchWithRetry_loop.simps string_of_nat_0)

lemma run_normalize_zero_attempts:
  "normalizeDrugName net_timeout ''Tylenol'' (DEFAULT_RXNORM_CONFIG\<lparr>retryAttempts := 0\<rparr>) w0 =
     (\<lparr>originalName = ''Tylenol'', genericName = None, rxcui = None, status = ERROR,
       errorMessage = Some ''Failed after 0 attempts: undefined''\<rparr>, w0)"
  by (simp add: normalizeDrugName_def normalizeDrugName_catch_def searchDrug_def
        searchDrug_catch_def fetchWithRetry_def fetchWithRetry_loop.simps string_of_nat_0
        trim_def is_white_space_def Let_def)

lemma Rep_zero: "Rep_safe_integer (Abs_safe_integer 0) = 0"
  by (simp add: Abs_safe_integer_inverse)

section \<open>The claims\<close>

subsection \<open>C1: one result per input, in order, and the progress reports\<close>

text \<open>
  C1. For every list of names (duplicates allowed, the empty list included) and every remote
  service, \<^verbatim>\<open>normalizeDrugNameBatch\<close> returns as many results as there are names, the
  \<open>i\<close>-th result carrying the \<open>i\<close>-th name as its \<open>originalName\<close>. When a progress callback
  is supplied, the progress reports it receives are exactly \<open>(0, N, names[0])\<close>, \<open>\<dots>\<close>,
  \<open>(N-1, N, names[N-1])\<close>, \<open>(N, N, "")\<close>: \<open>N + 1\<close> calls with the completed count rising
  from 0 to \<open>N\<close>; without a callback there is none.
\<close>

theorem batch_results_and_progress:
  "length (fst (normalizeDrugNameBatch net drugNames onProgress config w)) = length drugNames \<and>
   map originalName (fst (normalizeDrugNameBatch net drugNames onProgress config w)) = drugNames \<and>
   trace (snd (normalizeDrugNameBatch net drugNames onProgress config w)) =
     trace w @ emitted w (snd (normalizeDrugNameBatch net drugNames onProgress config w)) \<and>
   filter is_progress (emitted w (snd (normalizeDrugNameBatch net drugNames onProgress config w))) =
     (if onProgress
      then map (\<lambda>i. Progress i (length drugNames) (drugNames ! i)) [0..<length drugNames] @
           [Progress (length drugNames) (length drugNames) []]
      else [])"
proof -
  let ?n = "length drugNames"
  obtain rs w' where l: "normalizeDrugNameBatch_loop net drugNames onProgress config 0 [] w = (rs, w')"
    by fastforce
  from batch_loop_facts [OF _ l] obtain evs where
    names: "map originalName rs = drugNames" and
    t: "trace w' = trace w @ evs" and
    p: "filter is_progress evs =
          (if onProgress then map (\<lambda>j. Progress j ?n (drugNames ! j)) [0..<?n] else [])"
    by fastforce
  let ?fin = "if onProgress then [Progress ?n ?n []] else []"
  let ?w'' = "if onProgress then progress ?n ?n [] w' else w'"
  have run: "normalizeDrugNameBatch net drugNames onProgress config w = (rs, ?w'')"
    using l by (simp add: normalizeDrugNameBatch_def Let_def)
  have t': "trace ?w'' = trace w @ (evs @ ?fin)"
    using t by (simp add: progress_def)
  then have em: "emitted w ?w'' = evs @ ?fin"
    by (simp add: emitted_def)
  have "length rs = ?n" using names by (metis length_map)
  moreover have "filter is_progress (evs @ ?fin) =
     (if onProgress then map (\<lambda>i. Progress i ?n (drugNames ! i)) [0..<?n] @ [Progress ?n ?n []] else [])"
    using p by simp
  ultimately show ?thesis
    unfolding run using names t' em by simp
qed

theorem batch_results_and_progress_witness:
  "map originalName
     (fst (normalizeDrugNameBatch net_tylenol [''Tylenol'', ''Advil''] True DEFAULT_RXNORM_CONFIG w0)) =
     [''Tylenol'', ''Advil''] \<and>
   filter is_progress
     (emitted w0 (snd (normalizeDrugNameBatch net_tylenol [''Tylenol'', ''Advil''] True
                         DEFAULT_RXNORM_CONFIG w0))) =
     [Progress 0 2 ''Tylenol'', Progress 1 2 ''Advil'', Progress 2 2 []]"
  using batch_results_and_progress
          [of net_tylenol "[''Tylenol'', ''Advil'']" True DEFAULT_RXNORM_CONFIG w0]
  by simp

subsection \<open>C2: the composition of the two lookups\<close>

text \<open>
  C2, as the code has it. \<^verbatim>\<open>normalizeDrugName\<close> runs \<^verbatim>\<open>searchDrug\<close> and then, in the
  world \<^verbatim>\<open>searchDrug\<close> leaves, \<^verbatim>\<open>getGenericName\<close> on the identifier found. If the
  identifier lookup yields null or an empty identifier, the result is not-found with null
  \<open>genericName\<close> and \<open>rxcui\<close> and the message \<^verbatim>\<open>Drug not found in RxNorm database\<close>. If an
  identifier is found and the ingredient lookup yields null or an empty name, the result is
  not-found with the message \<^verbatim>\<open>Generic name not found for this drug\<close>. If both lookups
  succeed with a non-empty generic name, the result is a success carrying the generic name
  and the identifier of the two lookups, and no message.
\<close>

theorem normalizeDrugName_composition:
  assumes "searchDrug net drugName config w = (found, w1)"
  shows "((\<exists>f. found = Inr f \<and> falsy f) \<longrightarrow>
            normalizeDrugName net drugName config w =
              (\<lparr>originalName = drugName, genericName = None, rxcui = None, status = NOT_FOUND,
                errorMessage = Some ''Drug not found in RxNorm database''\<rparr>, w1)) \<and>
         (\<forall>ident generic w2.
            found = Inr (Some ident) \<and> getGenericName net ident config w1 = (Inr generic, w2) \<longrightarrow>
              (falsy generic \<longrightarrow>
                 normalizeDrugName net drugName config w =
                   (\<lparr>originalName = drugName, genericName = None, rxcui = Some ident,
                     status = NOT_FOUND,
                     errorMessage = Some ''Generic name not found for this drug''\<rparr>, w2)) \<and>
              (\<not> falsy generic \<longrightarrow>
                 normalizeDrugName net drugName config w =
                   (\<lparr>originalName = drugName, genericName = generic, rxcui = Some ident,
                     status = SUCCESS, errorMessage = None\<rparr>, w2)))"
proof (intro conjI allI impI)
  assume "\<exists>f. found = Inr f \<and> falsy f"
  with assms show "normalizeDrugName net drugName config w =
      (\<lparr>originalName = drugName, genericName = None, rxcui = None, status = NOT_FOUND,
        errorMessage = Some ''Drug not found in RxNorm database''\<rparr>, w1)"
    by (auto simp: normalizeDrugName_def)
next
  fix ident generic w2
  assume h: "found = Inr (Some ident) \<and> getGenericName net ident config w1 = (Inr generic, w2)"
  then have ne: "ident \<noteq> []" using getGenericName_empty [of net config w1] by auto
  {
    assume "falsy generic"
    with assms h ne show "normalizeDrugName net drugName config w =
        (\<lparr>originalName = drugName, genericName = None, rxcui = Some ident, status = NOT_FOUND,
          errorMessage = Some ''Generic name not found for this drug''\<rparr>, w2)"
      by (simp add: normalizeDrugName_def falsy_def)
  }
  {
    assume "\<not> falsy generic"
    with assms h ne show "normalizeDrugName net drugName config w =
        (\<lparr>originalName = drugName, genericName = generic, rxcui = Some ident,
          status = SUCCESS, errorMessage = None\<rparr>, w2)"
      by (simp add: normalizeDrugName_def falsy_def)
  }
qed

theorem normalizeDrugName_composition_witness:
  "fst (normalizeDrugName net_no_candidates ''xyz-not-a-drug'' DEFAULT_RXNORM_CONFIG w0) =
     \<lparr>originalName = ''xyz-not-a-drug'', genericName = None, rxcui = None, status = NOT_FOUND,
      errorMessage = Some ''Drug not found in RxNorm database''\<rparr> \<and>
   fst (normalizeDrugName net_no_ingredient ''Tylenol'' DEFAULT_RXNORM_CONFIG w0) =
     \<lparr>originalName = ''Tylenol'', genericName = None, rxcui = Some ''202433'', status = NOT_FOUND,
      errorMessage = Some ''Generic name not found for this drug''\<rparr> \<and>
   fst (normalizeDrugName net_tylenol ''Tylenol'' DEFAULT_RXNORM_CONFIG w0) =
     \<lparr>originalName = ''Tylenol'', genericName = Some ''acetaminophen'', rxcui = Some ''202433'',
      status = SUCCESS, errorMessage = None\<rparr>"
  using normalizeDrugName_composition [OF run_search_unknown]
    normalizeDrugName_composition [OF run_search_no_ingredient] run_generic_no_ingredient
    normalizeDrugName_composition [OF run_search_tylenol] run_generic_tylenol
  by (simp add: falsy_def)

text \<open>
  The claim as first stated fails twice. For an unknown drug the message is not
  \<^verbatim>\<open>not found in vocabulary\<close>; and when both lookups succeed but the ingredient's name is
  the empty string, the result is not a success.
\<close>

theorem normalizeDrugName_composition_counterexample:
  "fst (searchDrug net_no_candidates ''xyz-not-a-drug'' DEFAULT_RXNORM_CONFIG w0) = Inr None \<and>
   errorMessage (fst (normalizeDrugName net_no_candidates ''xyz-not-a-drug'' DEFAULT_RXNORM_CONFIG w0))
     \<noteq> Some ''not found in vocabulary'' \<and>
   fst (searchDrug net_blank_ingredient ''Tylenol'' DEFAULT_RXNORM_CONFIG w0) = Inr (Some ''202433'') \<and>
   fst (getGenericName net_blank_ingredient ''202433'' DEFAULT_RXNORM_CONFIG
          (snd (searchDrug net_blank_ingredient ''Tylenol'' DEFAULT_RXNORM_CONFIG w0))) = Inr (Some []) \<and>
   status (fst (normalizeDrugName net_blank_ingredient ''Tylenol'' DEFAULT_RXNORM_CONFIG w0)) \<noteq> SUCCESS"
  using run_generic_blank_ingredient
  by (simp add: run_search_unknown run_normalize_unknown run_search_blank_ingredient
        run_normalize_blank_ingredient)

subsection \<open>C3: the status and the two nullable fields\<close>

text \<open>
  C3. In every result of \<^verbatim>\<open>normalizeDrugName\<close>, the status is success exactly when both
  \<open>genericName\<close> and \<open>rxcui\<close> are non-null, and a status of not-found or error implies that
  \<open>genericName\<close> is null.
\<close>

theorem status_invariant:
  "(status (fst (normalizeDrugName net drugName config w)) = SUCCESS \<longleftrightarrow>
      genericName (fst (normalizeDrugName net drugName config w)) \<noteq> None \<and>
      rxcui (fst (normalizeDrugName net drugName config w)) \<noteq> None) \<and>
   (status (fst (normalizeDrugName net drugName config w)) = NOT_FOUND \<or>
    status (fst (normalizeDrugName net drugName config w)) = ERROR \<longrightarrow>
      genericName (fst (normalizeDrugName net drugName config w)) = None)"
  by (auto simp: normalizeDrugName_def normalizeDrugName_catch_def falsy_def
           split: prod.splits sum.splits)

theorem status_invariant_witness:
  "status (fst (normalizeDrugName net_tylenol ''Tylenol'' DEFAULT_RXNORM_CONFIG w0)) = SUCCESS \<and>
   genericName (fst (normalizeDrugName net_tylenol ''Tylenol'' DEFAULT_RXNORM_CONFIG w0)) \<noteq> None \<and>
   rxcui (fst (normalizeDrugName net_tylenol ''Tylenol'' DEFAULT_RXNORM_CONFIG w0)) \<noteq> None \<and>
   status (fst (normalizeDrugName net_no_candidates ''xyz-not-a-drug'' DEFAULT_RXNORM_CONFIG w0)) =
     NOT_FOUND \<and>
   genericName (fst (normalizeDrugName net_no_candidates ''xyz-not-a-drug'' DEFAULT_RXNORM_CONFIG w0)) =
     None"
  using status_invariant [of net_tylenol "''Tylenol''" DEFAULT_RXNORM_CONFIG w0]
    status_invariant [of net_no_candidates "''xyz-not-a-drug''" DEFAULT_RXNORM_CONFIG w0]
  by (simp add: run_normalize_tylenol run_normalize_unknown)

subsection \<open>C4: errors of the lookups end in the result\<close>

text \<open>
  C4. \<^verbatim>\<open>normalizeDrugName\<close> always returns a result: both branches of its \<^verbatim>\<open>catch\<close>
  block return, so its model has no error alternative. Whatever error \<^verbatim>\<open>searchDrug\<close>
  raises, and whatever error \<^verbatim>\<open>getGenericName\<close> raises when it is run on the (non-empty)
  identifier found, the result has status error, null \<open>genericName\<close> and \<open>rxcui\<close>, and the
  message of that very error. Hence the batch returns one result per name whatever the
  remote service does.
\<close>

theorem normalizeDrugName_captures_errors:
  "(\<forall>e w1. searchDrug net drugName config w = (Inl e, w1) \<longrightarrow>
      normalizeDrugName net drugName config w =
        (\<lparr>originalName = drugName, genericName = None, rxcui = None, status = ERROR,
          errorMessage = Some (message e)\<rparr>, w1)) \<and>
   (\<forall>ident w1 e w2.
      searchDrug net drugName config w = (Inr (Some ident), w1) \<and> ident \<noteq> [] \<and>
      getGenericName net ident config w1 = (Inl e, w2) \<longrightarrow>
        normalizeDrugName net drugName config w =
          (\<lparr>originalName = drugName, genericName = None, rxcui = None, status = ERROR,
            errorMessage = Some (message e)\<rparr>, w2)) \<and>
   length (fst (normalizeDrugNameBatch net drugNames onProgress config w)) = length drugNames"
proof (intro conjI allI impI)
  fix e w1
  assume s: "searchDrug net drugName config w = (Inl e, w1)"
  from searchDrug_raises [OF s] s
  show "normalizeDrugName net drugName config w =
      (\<lparr>originalName = drugName, genericName = None, rxcui = None, status = ERROR,
        errorMessage = Some (message e)\<rparr>, w1)"
    by (simp add: normalizeDrugName_def normalizeDrugName_catch_def)
next
  fix ident w1 e w2
  assume h: "searchDrug net drugName config w = (Inr (Some ident), w1) \<and> ident \<noteq> [] \<and>
             getGenericName net ident config w1 = (Inl e, w2)"
  then have "is_RxNormAPIError e" using getGenericName_raises by blast
  with h show "normalizeDrugName net drugName config w =
      (\<lparr>originalName = drugName, genericName = None, rxcui = None, status = ERROR,
        errorMessage = Some (message e)\<rparr>, w2)"
    by (simp add: normalizeDrugName_def normalizeDrugName_catch_def falsy_def)
next
  show "length (fst (normalizeDrugNameBatch net drugNames onProgress config w)) = length drugNames"
    by (rule batch_length)
qed

theorem normalizeDrugName_captures_errors_witness:
  "fst (normalizeDrugName net_404 ''Tylenol'' DEFAULT_RXNORM_CONFIG w0) =
     \<lparr>originalName = ''Tylenol'', genericName = None, rxcui = None, status = ERROR,
      errorMessage = Some ''HTTP 404: Not Found''\<rparr> \<and>
   fst (normalizeDrugName net_ingredient_404 ''Tylenol'' DEFAULT_RXNORM_CONFIG w0) =
     \<lparr>originalName = ''Tylenol'', genericName = None, rxcui = None, status = ERROR,
      errorMessage = Some ''HTTP 404: Not Found''\<rparr> \<and>
   length (fst (normalizeDrugNameBatch net_404 [''Tylenol'', ''Advil''] False DEFAULT_RXNORM_CONFIG w0)) = 2"
  using normalizeDrugName_captures_errors
          [of net_404 "''Tylenol''" DEFAULT_RXNORM_CONFIG w0 "[''Tylenol'', ''Advil'']" False]
    normalizeDrugName_captures_errors
          [of net_ingredient_404 "''Tylenol''" DEFAULT_RXNORM_CONFIG w0 "[]" False]
    run_search_404 run_search_ingredient_404 run_generic_ingredient_404
  by simp

subsection \<open>C5: client errors are final, other failures are retried\<close>

text \<open>
  C5. Let the first \<open>j\<close> attempts of \<^verbatim>\<open>fetchWithRetry\<close> fail in a retryable way (anything
  but a status in 400..499) and let attempt \<open>j + 1\<close>, still within \<open>retryAttempts\<close>, get a
  response. If its status is in 400..499, the call fails with that HTTP error after exactly
  \<open>j + 1\<close> attempts (exactly one when \<open>j = 0\<close>): it is never retried. If the response is ok,
  the call returns it, again after exactly \<open>j + 1\<close> attempts.
\<close>

theorem client_errors_not_retried:
  assumes "Suc j \<le> retryAttempts config"
    and "\<forall>i<j. retryable_failure (net (calls w + i) url)"
    and "net (calls w + j) url = Resolves resp"
  shows "(400 \<le> http_status resp \<and> http_status resp < 500 \<longrightarrow>
            fst (fetchWithRetry net url config w) =
              Inl (RxNormAPIError
                     (''HTTP '' @ string_of_nat (http_status resp) @ '': '' @ statusText resp)
                     (Some ''HTTP_ERROR'') (Some (http_status resp)) None) \<and>
            calls (snd (fetchWithRetry net url config w)) = calls w + Suc j) \<and>
         (ok resp \<longrightarrow>
            fst (fetchWithRetry net url config w) = Inr resp \<and>
            calls (snd (fetchWithRetry net url config w)) = calls w + Suc j)"
proof -
  have final: "400 \<le> http_status resp \<and> http_status resp < 500 \<or> ok resp \<Longrightarrow>
      fst (fetchWithRetry net url config w) =
        attempt_result (timeout config) (Resolves resp) \<and>
      calls (snd (fetchWithRetry net url config w)) = calls w + Suc j"
  proof -
    assume "400 \<le> http_status resp \<and> http_status resp < 500 \<or> ok resp"
    then have "\<not> retryable_failure (net (calls w + j) url)"
      unfolding assms(3) by (auto simp: retryable_failure_def client_error_response_def)
    from assms(1) have "1 + j \<le> retryAttempts config" by simp
    from loop_first_final [where a = 1 and le = None and net = net and w = w and url = url
          and j = j and config = config, OF this assms(2) \<open>\<not> retryable_failure (net (calls w + j) url)\<close>]
      assms(3)
    show ?thesis by (simp add: fetchWithRetry_def)
  qed
  show ?thesis
  proof (intro conjI impI)
    assume c: "400 \<le> http_status resp \<and> http_status resp < 500"
    then have "\<not> ok resp" by (simp add: ok_def)
    with final c show "fst (fetchWithRetry net url config w) =
        Inl (RxNormAPIError
               (''HTTP '' @ string_of_nat (http_status resp) @ '': '' @ statusText resp)
               (Some ''HTTP_ERROR'') (Some (http_status resp)) None)"
      by (simp add: attempt_result_def)
    from final c show "calls (snd (fetchWithRetry net url config w)) = calls w + Suc j" by simp
  next
    assume o: "ok resp"
    with final show "fst (fetchWithRetry net url config w) = Inr resp"
      by (simp add: attempt_result_def)
    from final o show "calls (snd (fetchWithRetry net url config w)) = calls w + Suc j" by simp
  qed
qed

theorem client_errors_not_retried_witness:
  "retryable_failure (net_500_then_200 0 ''u'') \<and>
   fst (fetchWithRetry net_500_then_200 ''u'' DEFAULT_RXNORM_CONFIG w0) =
     Inr \<lparr>http_status = 200, statusText = ''OK'', body = tylenol_candidates\<rparr> \<and>
   calls (snd (fetchWithRetry net_500_then_200 ''u'' DEFAULT_RXNORM_CONFIG w0)) = 2 \<and>
   fst (fetchWithRetry net_404 ''u'' DEFAULT_RXNORM_CONFIG w0) =
     Inl (RxNormAPIError ''HTTP 404: Not Found'' (Some ''HTTP_ERROR'') (Some 404) None) \<and>
   calls (snd (fetchWithRetry net_404 ''u'' DEFAULT_RXNORM_CONFIG w0)) = 1"
  using client_errors_not_retried
          [of 1 DEFAULT_RXNORM_CONFIG net_500_then_200 w0 "''u''"
              "\<lparr>http_status = 200, statusText = ''OK'', body = tylenol_candidates\<rparr>"]
    client_errors_not_retried
          [of 0 DEFAULT_RXNORM_CONFIG net_404 w0 "''u''"
              "\<lparr>http_status = 404, statusText = ''Not Found'', body = JsonThrows [] []\<rparr>"]
  by (simp add: net_500_then_200_def net_404_def respond_def w0_def DEFAULT_RXNORM_CONFIG_def
        retryable_failure_def client_error_response_def ok_def string_of_nat.simps digit_char_def)

subsection \<open>C6: the retry budget, the backoff and exhaustion\<close>

text \<open>
  C6, as the code has it. For every remote service and every configuration whose numbers
  are safe integers, \<^verbatim>\<open>fetchWithRetry\<close> makes at most \<open>retryAttempts\<close> attempts, and what it
  does is the schedule
  \<open>fetch, sleep (retryDelay \<times> 1), fetch, sleep (retryDelay \<times> 2), \<dots>, fetch\<close>: a wait of
  \<open>retryDelay \<times> k\<close> between attempt \<open>k\<close> and attempt \<open>k + 1\<close>, none after the last. When every
  attempt fails in a retryable way, all \<open>retryAttempts\<close> attempts are made and the call fails
  with the code \<^verbatim>\<open>MAX_RETRIES_EXCEEDED\<close> and the message \<^verbatim>\<open>Failed after N attempts: \<close>
  followed by the message of the last underlying error, or by \<^verbatim>\<open>undefined\<close> when
  \<open>retryAttempts\<close> is 0 and no attempt is made. When every remote call times out,
  \<^verbatim>\<open>normalizeDrugName\<close> on a name that is not blank returns status error with the message
  of that error: \<^verbatim>\<open>Failed after N attempts: Request timeout after Tms\<close> when
  \<open>retryAttempts\<close> is at least 1, \<^verbatim>\<open>Failed after 0 attempts: undefined\<close> when it is 0. The
  result carries the message only, not the classification.
\<close>

theorem retry_budget_and_backoff:
  assumes safe: "safe_config config" and run: "fetchWithRetry net url config w = (r, w')"
  shows "calls w \<le> calls w' \<and> calls w' - calls w \<le> retryAttempts config \<and>
         trace w' = trace w @ retry_schedule url (retryDelay config) 1 (calls w' - calls w) \<and>
         ((\<forall>i < retryAttempts config. retryable_failure (net (calls w + i) url)) \<longrightarrow>
            calls w' = calls w + retryAttempts config \<and>
            r = Inl (RxNormAPIError
                  (''Failed after '' @ string_of_nat (retryAttempts config) @ '' attempts: '' @
                   (case (if 1 \<le> retryAttempts config
                          then attempt_error (timeout config)
                                 (net (calls w + (retryAttempts config - 1)) url)
                          else None) of
                      None \<Rightarrow> ''undefined'' | Some e \<Rightarrow> message e))
                  (Some ''MAX_RETRIES_EXCEEDED'') None None)) \<and>
         (trim drugName \<noteq> [] \<and> (\<forall>k u. \<exists>m. net k u = Throws ''AbortError'' m) \<longrightarrow>
            fst (normalizeDrugName net drugName config w) =
              \<lparr>originalName = drugName, genericName = None, rxcui = None, status = ERROR,
               errorMessage = Some (''Failed after '' @ string_of_nat (retryAttempts config) @
                 '' attempts: '' @
                 (if 1 \<le> retryAttempts config
                  then ''Request timeout after '' @ string_of_nat (timeout config) @ ''ms''
                  else ''undefined''))\<rparr>)"
proof -
  from fetchWithRetry_frame [OF run] obtain k where
    k: "k \<le> retryAttempts config" "calls w' = calls w + k"
       "trace w' = trace w @ retry_schedule url (retryDelay config) 1 k"
    by blast
  then have budget: "calls w \<le> calls w' \<and> calls w' - calls w \<le> retryAttempts config \<and>
         trace w' = trace w @ retry_schedule url (retryDelay config) 1 (calls w' - calls w)"
    by simp
  have exhausted: "calls w' = calls w + retryAttempts config \<and>
            r = Inl (RxNormAPIError
                  (''Failed after '' @ string_of_nat (retryAttempts config) @ '' attempts: '' @
                   (case (if 1 \<le> retryAttempts config
                          then attempt_error (timeout config)
                                 (net (calls w + (retryAttempts config - 1)) url)
                          else None) of
                      None \<Rightarrow> ''undefined'' | Some e \<Rightarrow> message e))
                  (Some ''MAX_RETRIES_EXCEEDED'') None None)"
    if all: "\<forall>i < retryAttempts config. retryable_failure (net (calls w + i) url)"
  proof -
    from all have all': "\<forall>i < Suc (retryAttempts config) - 1. retryable_failure (net (calls w + i) url)"
      by simp
    have "fst (fetchWithRetry_loop net url config 1 None w) =
            Inl (RxNormAPIError
                  (''Failed after '' @ string_of_nat (retryAttempts config) @ '' attempts: '' @
                   (case (if 1 \<le> retryAttempts config
                          then attempt_error (timeout config)
                                 (net (calls w + (retryAttempts config - 1)) url)
                          else None) of
                      None \<Rightarrow> ''undefined'' | Some e \<Rightarrow> message e))
                  (Some ''MAX_RETRIES_EXCEEDED'') None None)"
      using all' by (rule loop_all_fail)
    moreover have "calls (snd (fetchWithRetry_loop net url config 1 None w)) =
            calls w + (Suc (retryAttempts config) - 1)"
      using all' by (rule loop_all_fail_calls)
    ultimately show ?thesis using run by (simp add: fetchWithRetry_def)
  qed
  show ?thesis
  proof (intro conjI impI)
    show "calls w \<le> calls w'" "calls w' - calls w \<le> retryAttempts config"
      "trace w' = trace w @ retry_schedule url (retryDelay config) 1 (calls w' - calls w)"
      using budget by simp_all
  next
    assume "\<forall>i < retryAttempts config. retryable_failure (net (calls w + i) url)"
    from exhausted [OF this]
    show "calls w' = calls w + retryAttempts config"
      "r = Inl (RxNormAPIError
                  (''Failed after '' @ string_of_nat (retryAttempts config) @ '' attempts: '' @
                   (case (if 1 \<le> retryAttempts config
                          then attempt_error (timeout config)
                                 (net (calls w + (retryAttempts config - 1)) url)
                          else None) of
                      None \<Rightarrow> ''undefined'' | Some e \<Rightarrow> message e))
                  (Some ''MAX_RETRIES_EXCEEDED'') None None)"
      by simp_all
  next
    assume "trim drugName \<noteq> [] \<and> (\<forall>k u. \<exists>m. net k u = Throws ''AbortError'' m)"
    then show "fst (normalizeDrugName net drugName config w) =
              \<lparr>originalName = drugName, genericName = None, rxcui = None, status = ERROR,
               errorMessage = Some (''Failed after '' @ string_of_nat (retryAttempts config) @
                 '' attempts: '' @
                 (if 1 \<le> retryAttempts config
                  then ''Request timeout after '' @ string_of_nat (timeout config) @ ''ms''
                  else ''undefined''))\<rparr>"
      using all_timeouts_result by blast
  qed
qed

theorem retry_budget_and_backoff_witness:
  "safe_config DEFAULT_RXNORM_CONFIG \<and>
   retryable_failure (net_timeout 0 ''u'') \<and> retryable_failure (net_timeout 1 ''u'') \<and>
   retryable_failure (net_timeout 2 ''u'') \<and>
   fetchWithRetry net_timeout ''u'' DEFAULT_RXNORM_CONFIG w0 =
     (Inl (RxNormAPIError ''Failed after 3 attempts: Request timeout after 10000ms''
             (Some ''MAX_RETRIES_EXCEEDED'') None None),
      \<lparr>calls = 3,
       trace = [Fetch ''u'', Sleep 1000, Fetch ''u'', Sleep 2000, Fetch ''u'']\<rparr>) \<and>
   retry_schedule ''u'' 1000 1 3 = [Fetch ''u'', Sleep 1000, Fetch ''u'', Sleep 2000, Fetch ''u''] \<and>
   trim ''Tylenol'' \<noteq> [] \<and>
   fst (normalizeDrugName net_timeout ''Tylenol'' DEFAULT_RXNORM_CONFIG w0) =
     \<lparr>originalName = ''Tylenol'', genericName = None, rxcui = None, status = ERROR,
      errorMessage = Some ''Failed after 3 attempts: Request timeout after 10000ms''\<rparr> \<and>
   safe_config (DEFAULT_RXNORM_CONFIG\<lparr>retryAttempts := 0\<rparr>) \<and>
   fetchWithRetry net_timeout ''u'' (DEFAULT_RXNORM_CONFIG\<lparr>retryAttempts := 0\<rparr>) w0 =
     (Inl (RxNormAPIError ''Failed after 0 attempts: undefined''
             (Some ''MAX_RETRIES_EXCEEDED'') None None), w0) \<and>
   fst (normalizeDrugName net_timeout ''Tylenol'' (DEFAULT_RXNORM_CONFIG\<lparr>retryAttempts := 0\<rparr>) w0) =
     \<lparr>originalName = ''Tylenol'', genericName = None, rxcui = None, status = ERROR,
      errorMessage = Some ''Failed after 0 attempts: undefined''\<rparr>"
proof -
  have three: "safe_config DEFAULT_RXNORM_CONFIG \<and>
   retryable_failure (net_timeout 0 ''u'') \<and> retryable_failure (net_timeout 1 ''u'') \<and>
   retryable_failure (net_timeout 2 ''u'') \<and>
   fetchWithRetry net_timeout ''u'' DEFAULT_RXNORM_CONFIG w0 =
     (Inl (RxNormAPIError ''Failed after 3 attempts: Request timeout after 10000ms''
             (Some ''MAX_RETRIES_EXCEEDED'') None None),
      \<lparr>calls = 3,
       trace = [Fetch ''u'', Sleep 1000, Fetch ''u'', Sleep 2000, Fetch ''u'']\<rparr>) \<and>
   retry_schedule ''u'' 1000 1 3 = [Fetch ''u'', Sleep 1000, Fetch ''u'', Sleep 2000, Fetch ''u''] \<and>
   trim ''Tylenol'' \<noteq> [] \<and>
   fst (normalizeDrugName net_timeout ''Tylenol'' DEFAULT_RXNORM_CONFIG w0) =
     \<lparr>originalName = ''Tylenol'', genericName = None, rxcui = None, status = ERROR,
      errorMessage = Some ''Failed after 3 attempts: Request timeout after 10000ms''\<rparr>"
    using retry_budget_and_backoff [OF safe_config_default run_retry_timeout, of "''Tylenol''"]
      run_retry_timeout safe_config_default
    by (simp add: net_timeout_def retryable_failure_def w0_def DEFAULT_RXNORM_CONFIG_def
          trim_def is_white_space_def string_of_nat_3 string_of_nat_10000 retry_schedule_3
          attempt_error_def attempt_result_def)
  have zero: "safe_config (DEFAULT_RXNORM_CONFIG\<lparr>retryAttempts := 0\<rparr>) \<and>
   fetchWithRetry net_timeout ''u'' (DEFAULT_RXNORM_CONFIG\<lparr>retryAttempts := 0\<rparr>) w0 =
     (Inl (RxNormAPIError ''Failed after 0 attempts: undefined''
             (Some ''MAX_RETRIES_EXCEEDED'') None None), w0) \<and>
   fst (normalizeDrugName net_timeout ''Tylenol'' (DEFAULT_RXNORM_CONFIG\<lparr>retryAttempts := 0\<rparr>) w0) =
     \<lparr>originalName = ''Tylenol'', genericName = None, rxcui = None, status = ERROR,
      errorMessage = Some ''Failed after 0 attempts: undefined''\<rparr>"
    using retry_budget_and_backoff [OF safe_config_zero run_retry_zero, of "''Tylenol''"]
      run_retry_zero safe_config_zero
    by (simp add: net_timeout_def trim_def is_white_space_def string_of_nat_0)
  from three zero show ?thesis by blast
qed

text \<open>
  The claim as first stated fails in its last part: with every call timing out, the message
  of the result contains the classification under neither of its names. With
  \<open>retryAttempts = 0\<close> no attempt is made and the message embeds no underlying error; and
  for a blank name, for which no call is made at all, the message is that of the input
  check.
\<close>

theorem retry_budget_and_backoff_counterexample:
  "status (fst (normalizeDrugName net_timeout ''Tylenol'' DEFAULT_RXNORM_CONFIG w0)) = ERROR \<and>
   errorMessage (fst (normalizeDrugName net_timeout ''Tylenol'' DEFAULT_RXNORM_CONFIG w0)) =
     Some ''Failed after 3 attempts: Request timeout after 10000ms'' \<and>
   \<not> string_includes ''Failed after 3 attempts: Request timeout after 10000ms''
        ''MaxRetriesExceeded'' \<and>
   \<not> string_includes ''Failed after 3 attempts: Request timeout after 10000ms''
        ''MAX_RETRIES_EXCEEDED'' \<and>
   normalizeDrugName net_timeout ''Tylenol'' (DEFAULT_RXNORM_CONFIG\<lparr>retryAttempts := 0\<rparr>) w0 =
     (\<lparr>originalName = ''Tylenol'', genericName = None, rxcui = None, status = ERROR,
       errorMessage = Some ''Failed after 0 attempts: undefined''\<rparr>, w0) \<and>
   normalizeDrugName net_timeout ''  '' DEFAULT_RXNORM_CONFIG w0 =
     (\<lparr>originalName = ''  '', genericName = None, rxcui = None, status = ERROR,
       errorMessage = Some ''Drug name cannot be empty''\<rparr>, w0)"
  by (simp add: run_normalize_timeout run_normalize_blank run_normalize_zero_attempts)

subsection \<open>C7: empty input fails at once\<close>

text \<open>
  C7. On a name that is empty after trimming, \<^verbatim>\<open>searchDrug\<close> fails with the code
  \<^verbatim>\<open>INVALID_INPUT\<close>, and so does \<^verbatim>\<open>getGenericName\<close> on an identifier that is empty (or
  blank); in both the world is left as it was: no call of the remote service, no wait.
\<close>

theorem empty_input_fails_fast:
  "(trim drugName = [] \<longrightarrow>
      searchDrug net drugName config w =
        (Inl (RxNormAPIError ''Drug name cannot be empty'' (Some ''INVALID_INPUT'') None None), w)) \<and>
   (trim ident = [] \<longrightarrow>
      getGenericName net ident config w =
        (Inl (RxNormAPIError ''RxCUI cannot be empty'' (Some ''INVALID_INPUT'') None None), w))"
  by (simp add: searchDrug_def getGenericName_def)

theorem empty_input_fails_fast_witness:
  "trim ''   '' = [] \<and>
   searchDrug net_tylenol ''   '' DEFAULT_RXNORM_CONFIG w0 =
     (Inl (RxNormAPIError ''Drug name cannot be empty'' (Some ''INVALID_INPUT'') None None), w0) \<and>
   trim [] = [] \<and>
   getGenericName net_tylenol [] DEFAULT_RXNORM_CONFIG w0 =
     (Inl (RxNormAPIError ''RxCUI cannot be empty'' (Some ''INVALID_INPUT'') None None), w0)"
  using empty_input_fails_fast [of "''   ''" net_tylenol DEFAULT_RXNORM_CONFIG w0 "[]"]
  by (simp add: trim_def is_white_space_def)

subsection \<open>C8: the pause between two elements\<close>

text \<open>
  C8. The world the batch leaves is the one \<open>paced_batch\<close> describes in the words of the
  specification: each element is announced (when there is a callback) and normalised; after
  an element that has a successor there is exactly one \<open>sleep 100\<close> before the successor
  starts; after the last element there is none, only the final progress report. Seen from
  outside: when the configuration leaves no room for a retry, so that every wait is a pause
  of the batch, the waits of a batch of \<open>N\<close> names are exactly \<open>N - 1\<close> pauses of 100 ms.
\<close>

theorem batch_pacing:
  "snd (normalizeDrugNameBatch net drugNames onProgress config w) =
     announce onProgress (length drugNames) (length drugNames) []
       (paced_batch net config onProgress (length drugNames) 0 drugNames w) \<and>
   (retryAttempts config \<le> 1 \<longrightarrow>
      filter is_sleep (emitted w (snd (normalizeDrugNameBatch net drugNames onProgress config w))) =
        replicate (length drugNames - 1) (Sleep 100))"
proof
  show "snd (normalizeDrugNameBatch net drugNames onProgress config w) =
     announce onProgress (length drugNames) (length drugNames) []
       (paced_batch net config onProgress (length drugNames) 0 drugNames w)"
    using batch_loop_paced [of 0 drugNames net onProgress config "[]" w]
    by (simp add: normalizeDrugNameBatch_def Let_def announce_def case_prod_beta)
next
  let ?n = "length drugNames"
  obtain rs w' where l: "normalizeDrugNameBatch_loop net drugNames onProgress config 0 [] w = (rs, w')"
    by fastforce
  from batch_loop_facts [OF _ l] obtain evs where
    t: "trace w' = trace w @ evs" and
    sl: "retryAttempts config \<le> 1 \<longrightarrow> filter is_sleep evs = replicate (?n - 1) (Sleep 100)"
    by fastforce
  let ?w'' = "if onProgress then progress ?n ?n [] w' else w'"
  have run: "normalizeDrugNameBatch net drugNames onProgress config w = (rs, ?w'')"
    using l by (simp add: normalizeDrugNameBatch_def Let_def)
  have "emitted w ?w'' = evs @ (if onProgress then [Progress ?n ?n []] else [])"
    using t by (simp add: emitted_def progress_def)
  with sl show "retryAttempts config \<le> 1 \<longrightarrow>
      filter is_sleep (emitted w (snd (normalizeDrugNameBatch net drugNames onProgress config w))) =
        replicate (length drugNames - 1) (Sleep 100)"
    unfolding run by simp
qed

theorem batch_pacing_witness:
  "trace (snd (normalizeDrugNameBatch net_no_candidates [''a'', ''b'', ''c''] False
                 DEFAULT_RXNORM_CONFIG w0)) =
     [Fetch ''https://rxnav.nlm.nih.gov/REST/approximateTerm.json?term=a'', Sleep 100,
      Fetch ''https://rxnav.nlm.nih.gov/REST/approximateTerm.json?term=b'', Sleep 100,
      Fetch ''https://rxnav.nlm.nih.gov/REST/approximateTerm.json?term=c''] \<and>
   retryAttempts (DEFAULT_RXNORM_CONFIG\<lparr>retryAttempts := 1\<rparr>) \<le> 1 \<and>
   filter is_sleep
     (emitted w0 (snd (normalizeDrugNameBatch net_timeout [''a'', ''b'', ''c''] True
                         (DEFAULT_RXNORM_CONFIG\<lparr>retryAttempts := 1\<rparr>) w0))) =
     [Sleep 100, Sleep 100]"
proof -
  have "trace (snd (normalizeDrugNameBatch net_no_candidates [''a'', ''b'', ''c''] False
                 DEFAULT_RXNORM_CONFIG w0)) =
     [Fetch ''https://rxnav.nlm.nih.gov/REST/approximateTerm.json?term=a'', Sleep 100,
      Fetch ''https://rxnav.nlm.nih.gov/REST/approximateTerm.json?term=b'', Sleep 100,
      Fetch ''https://rxnav.nlm.nih.gov/REST/approximateTerm.json?term=c'']"
    using batch_pacing [of net_no_candidates "[''a'', ''b'', ''c'']" False DEFAULT_RXNORM_CONFIG w0,
                        THEN conjunct1]
    by (simp add: announce_def eval_simps example_defs)
  moreover have "filter is_sleep
     (emitted w0 (snd (normalizeDrugNameBatch net_timeout [''a'', ''b'', ''c''] True
                         (DEFAULT_RXNORM_CONFIG\<lparr>retryAttempts := 1\<rparr>) w0))) =
     [Sleep 100, Sleep 100]"
    using batch_pacing [of net_timeout "[''a'', ''b'', ''c'']" True
                          "DEFAULT_RXNORM_CONFIG\<lparr>retryAttempts := 1\<rparr>" w0, THEN conjunct2]
    by simp
  ultimately show ?thesis by simp
qed

subsection \<open>C9: the join of the generic names onto the rows\<close>

text \<open>
  C9. The claim is that \<^verbatim>\<open>GENERIC_NAME\<close> is the entry of the table under the trimmed raw
  value of the designated cell. The code breaks it at a cell that holds the number 0. The
  trimmed raw value of that cell is \<^verbatim>\<open>0\<close>, and it is under \<^verbatim>\<open>0\<close> that the sibling
  \<^verbatim>\<open>extractColumnValues\<close> submits the cell for normalisation; but \<^verbatim>\<open>addGenericNameColumn\<close>
  reads the cell through \<^verbatim>\<open>v || ''\<close>, takes it for empty and assigns the sentinel, although
  the table holds an entry for \<^verbatim>\<open>0\<close>.
\<close>

theorem addGenericNameColumn_zero_cell:
  "trim (raw_text zero_cell) = ''0'' \<and>
   extractColumnValues [row_of [(''PATIENT'', Str ''001''), (''DESCRIPTION'', zero_cell)]]
     ''DESCRIPTION'' = [''0''] \<and>
   map_of [(''0'', ''placebo'')] ''0'' = Some ''placebo'' \<and>
   (addGenericNameColumn [row_of [(''PATIENT'', Str ''001''), (''DESCRIPTION'', zero_cell)]]
      ''DESCRIPTION'' (map_of [(''0'', ''placebo'')]) ! 0) ''GENERIC_NAME'' = Str ''NOT_FOUND''"
  by (simp add: addGenericNameColumn_def extractColumnValues_def set_add_def row_of_def
        zero_cell_def raw_text_def js_String_def falsy_value_def string_or_empty_def
        get_or_not_found_def GENERIC_NAME_COLUMN_def Rep_zero string_of_int_def string_of_nat_0
        trim_def is_white_space_def Let_def)

text \<open>
  Everywhere else the code does what the claim says. For a well-formed table
  \<^verbatim>\<open>addGenericNameColumn\<close> returns one row per input row, in the same order; every field
  other than \<^verbatim>\<open>GENERIC_NAME\<close> is unchanged; and in a row whose designated cell is not the
  number 0, \<^verbatim>\<open>GENERIC_NAME\<close> is the entry of the table under the trimmed raw value of the
  cell, and the sentinel when that value is empty or has no entry.
\<close>

lemma addGenericNameColumn_join_elsewhere:
  assumes "well_formed_names genericNames"
  shows "length (addGenericNameColumn originalData columnName genericNames) = length originalData \<and>
   (\<forall>i < length originalData.
      (\<forall>k. k \<noteq> GENERIC_NAME_COLUMN \<longrightarrow>
         (addGenericNameColumn originalData columnName genericNames ! i) k = (originalData ! i) k) \<and>
      (\<not> is_zero_number ((originalData ! i) columnName) \<longrightarrow>
         (addGenericNameColumn originalData columnName genericNames ! i) GENERIC_NAME_COLUMN =
           Str (if trim (raw_text ((originalData ! i) columnName)) = [] \<or>
                   genericNames (trim (raw_text ((originalData ! i) columnName))) = None
                then ''NOT_FOUND''
                else the (genericNames (trim (raw_text ((originalData ! i) columnName)))))))"
proof -
  have key: "string_or_empty v = raw_text v" if "\<not> is_zero_number v" for v
    using that
    by (cases v) (auto simp: string_or_empty_def raw_text_def falsy_value_def js_String_def
                             is_zero_number_def)
  have entry: "get_or_not_found genericNames k =
      (if k = [] \<or> genericNames k = None then ''NOT_FOUND'' else the (genericNames k))" for k
    using assms by (auto simp: get_or_not_found_def well_formed_names_def split: option.splits)
  show ?thesis
    by (simp add: addGenericNameColumn_def Let_def key entry)
qed

lemma addGenericNameColumn_join_elsewhere_example:
  "well_formed_names (map_of [(''Tylenol'', ''acetaminophen'')]) \<and>
   (addGenericNameColumn
      [row_of [(''PATIENT'', Str ''001''), (''DESCRIPTION'', Str '' Tylenol '')],
       row_of [(''PATIENT'', Str ''002''), (''DESCRIPTION'', Str ''Advil'')]]
      ''DESCRIPTION'' (map_of [(''Tylenol'', ''acetaminophen'')]) ! 0) ''GENERIC_NAME'' =
     Str ''acetaminophen'' \<and>
   (addGenericNameColumn
      [row_of [(''PATIENT'', Str ''001''), (''DESCRIPTION'', Str '' Tylenol '')],
       row_of [(''PATIENT'', Str ''002''), (''DESCRIPTION'', Str ''Advil'')]]
      ''DESCRIPTION'' (map_of [(''Tylenol'', ''acetaminophen'')]) ! 1) ''GENERIC_NAME'' =
     Str ''NOT_FOUND'' \<and>
   (addGenericNameColumn
      [row_of [(''PATIENT'', Str ''001''), (''DESCRIPTION'', Str '' Tylenol '')],
       row_of [(''PATIENT'', Str ''002''), (''DESCRIPTION'', Str ''Advil'')]]
      ''DESCRIPTION'' (map_of [(''Tylenol'', ''acetaminophen'')]) ! 1) ''PATIENT'' =
     Str ''002''"
proof -
  have wf: "well_formed_names (map_of [(''Tylenol'', ''acetaminophen'')])"
    by (simp add: well_formed_names_def)
  from addGenericNameColumn_join_elsewhere
    [OF wf, of "[row_of [(''PATIENT'', Str ''001''), (''DESCRIPTION'', Str '' Tylenol '')],
                 row_of [(''PATIENT'', Str ''002''), (''DESCRIPTION'', Str ''Advil'')]]"
        "''DESCRIPTION''"] wf
  show ?thesis
    by (simp add: row_of_def GENERIC_NAME_COLUMN_def raw_text_def js_String_def
          is_zero_number_def trim_def is_white_space_def)
qed

subsection \<open>C10: the identifier in a not-found result\<close>

text \<open>
  C10. When the identifier lookup finds no candidate, the not-found result has a null
  \<open>rxcui\<close>; when an identifier is found and the ingredient lookup yields null, the not-found
  result carries that identifier in \<open>rxcui\<close>.
\<close>

theorem not_found_identifier_exposure:
  assumes "searchDrug net drugName config w = (found, w1)"
  shows "(found = Inr None \<longrightarrow>
            status (fst (normalizeDrugName net drugName config w)) = NOT_FOUND \<and>
            rxcui (fst (normalizeDrugName net drugName config w)) = None) \<and>
         (\<forall>ident w2.
            found = Inr (Some ident) \<and> getGenericName net ident config w1 = (Inr None, w2) \<longrightarrow>
              status (fst (normalizeDrugName net drugName config w)) = NOT_FOUND \<and>
              rxcui (fst (normalizeDrugName net drugName config w)) = Some ident)"
proof (intro conjI allI impI)
  assume "found = Inr None"
  with assms show "status (fst (normalizeDrugName net drugName config w)) = NOT_FOUND"
    and "rxcui (fst (normalizeDrugName net drugName config w)) = None"
    by (simp_all add: normalizeDrugName_def falsy_def)
next
  fix ident w2
  assume h: "found = Inr (Some ident) \<and> getGenericName net ident config w1 = (Inr None, w2)"
  then have ne: "ident \<noteq> []" using getGenericName_empty [of net config w1] by auto
  with assms h show "status (fst (normalizeDrugName net drugName config w)) = NOT_FOUND"
    and "rxcui (fst (normalizeDrugName net drugName config w)) = Some ident"
    by (simp_all add: normalizeDrugName_def falsy_def)
qed

theorem not_found_identifier_exposure_witness:
  "status (fst (normalizeDrugName net_no_candidates ''xyz-not-a-drug'' DEFAULT_RXNORM_CONFIG w0)) =
     NOT_FOUND \<and>
   rxcui (fst (normalizeDrugName net_no_candidates ''xyz-not-a-drug'' DEFAULT_RXNORM_CONFIG w0)) = None \<and>
   status (fst (normalizeDrugName net_no_ingredient ''Tylenol'' DEFAULT_RXNORM_CONFIG w0)) = NOT_FOUND \<and>
   rxcui (fst (normalizeDrugName net_no_ingredient ''Tylenol'' DEFAULT_RXNORM_CONFIG w0)) =
     Some ''202433''"
  using not_found_identifier_exposure [OF run_search_unknown]
    not_found_identifier_exposure [OF run_search_no_ingredient] run_generic_no_ingredient
  by simp

end
